theory Spec2Isabelle
  imports Main "HOL-Library.Monad_Syntax"
begin

section \<open>Strings\<close>

text \<open>
  Python strings are modelled as \<^typ>\<open>string\<close>, one \<^typ>\<open>char\<close> per character.  The case
  operations are those of Python on ASCII; characters outside ASCII are left unchanged by
  them.  \<open>py_contains sub s\<close> is Python's \<^verbatim>\<open>sub in s\<close> on two strings,
  \<open>py_startswith s p\<close> is \<^verbatim>\<open>s.startswith(p)\<close>, \<open>lower s\<close> is \<^verbatim>\<open>s.lower()\<close>,
  \<open>title s\<close> is \<^verbatim>\<open>s.title()\<close>, \<open>join sep xs\<close> is \<^verbatim>\<open>sep.join(xs)\<close>.
\<close>

fun py_startswith :: "string \<Rightarrow> string \<Rightarrow> bool" where
  "py_startswith s [] = True"
| "py_startswith [] (p # ps) = False"
| "py_startswith (c # cs) (p # ps) = (c = p \<and> py_startswith cs ps)"

fun py_contains :: "string \<Rightarrow> string \<Rightarrow> bool" where
  "py_contains sub [] = (sub = [])"
| "py_contains sub (c # cs) = (py_startswith (c # cs) sub \<or> py_contains sub cs)"

definition is_upper :: "char \<Rightarrow> bool" where
  "is_upper c = (65 \<le> (of_char c :: nat) \<and> (of_char c :: nat) \<le> 90)"

definition is_lower :: "char \<Rightarrow> bool" where
  "is_lower c = (97 \<le> (of_char c :: nat) \<and> (of_char c :: nat) \<le> 122)"

definition lower_char :: "char \<Rightarrow> char" where
  "lower_char c = (if is_upper c then char_of ((of_char c :: nat) + 32) else c)"

definition upper_char :: "char \<Rightarrow> char" where
  "upper_char c = (if is_lower c then char_of ((of_char c :: nat) - 32) else c)"

definition lower :: "string \<Rightarrow> string" where
  "lower s = map lower_char s"

fun title_from :: "bool \<Rightarrow> string \<Rightarrow> string" where
  \<comment> \<open>the flag says whether the previous character was a cased letter\<close>
  "title_from prev [] = []"
| "title_from prev (c # cs) =
     (if prev then lower_char c else upper_char c) # title_from (is_upper c \<or> is_lower c) cs"

definition title :: "string \<Rightarrow> string" where
  "title s = title_from False s"

definition replace_char :: "char \<Rightarrow> char \<Rightarrow> string \<Rightarrow> string" where
  \<comment> \<open>\<^verbatim>\<open>s.replace(a, b)\<close> for one-character strings\<close>
  "replace_char a b s = map (\<lambda>c. if c = a then b else c) s"

fun join :: "string \<Rightarrow> string list \<Rightarrow> string" where
  "join sep [] = []"
| "join sep [x] = x"
| "join sep (x # y # ys) = x @ sep @ join sep (y # ys)"

definition any_word_in :: "string list \<Rightarrow> string \<Rightarrow> bool" where
  \<comment> \<open>\<^verbatim>\<open>any(word in s for word in words)\<close>\<close>
  "any_word_in ws s = list_ex (\<lambda>w. py_contains w s) ws"

fun first_match :: "(string \<times> 'a) list \<Rightarrow> string \<Rightarrow> 'a \<Rightarrow> 'a" where
  \<comment> \<open>the loop \<^verbatim>\<open>for key, value in table.items(): if key in s: result = value; break\<close>\<close>
  "first_match [] s dflt = dflt"
| "first_match ((k, v) # kvs) s dflt = (if py_contains k s then v else first_match kvs s dflt)"

subsection \<open>Decimal and quoted renderings\<close>

fun dec_nat :: "nat \<Rightarrow> string" where
  "dec_nat n = (if n < 10 then [char_of (48 + n)]
                else dec_nat (n div 10) @ [char_of (48 + n mod 10)])"

declare dec_nat.simps [simp del]

definition dec_int :: "int \<Rightarrow> string" where
  "dec_int i = (if i < 0 then CHR ''-'' # dec_nat (nat (- i)) else dec_nat (nat i))"

definition hex_digit :: "nat \<Rightarrow> char" where
  "hex_digit d = (if d < 10 then char_of (48 + d) else char_of (87 + d))"

definition repr_char :: "char \<Rightarrow> char \<Rightarrow> string" where
  \<comment> \<open>one character inside \<^verbatim>\<open>repr\<close> of a string delimited by the quote \<open>q\<close>\<close>
  "repr_char q c =
     (let n = (of_char c :: nat)
      in if c = q \<or> n = 92 then [CHR 0x5C, c]
         else if n = 9 then [CHR 0x5C, CHR ''t'']
         else if n = 10 then [CHR 0x5C, CHR ''n'']
         else if n = 13 then [CHR 0x5C, CHR ''r'']
         else if n < 32 \<or> n = 127 \<or> (128 \<le> n \<and> n \<le> 160) \<or> n = 173
           then [CHR 0x5C, CHR ''x'', hex_digit (n div 16), hex_digit (n mod 16)]
         else [c])"

definition repr_str :: "string \<Rightarrow> string" where
  \<comment> \<open>\<^verbatim>\<open>repr(s)\<close>: single quotes, unless the string has a single and no double quote\<close>
  "repr_str s =
     (let q = (if CHR 0x27 \<in> set s \<and> CHR 0x22 \<notin> set s then CHR 0x22 else CHR 0x27)
      in q # concat (map (repr_char q) s) @ [q])"

section \<open>Parsed documents\<close>

text \<open>
  What \<^verbatim>\<open>yaml.safe_load\<close> returns: a tree of \<^verbatim>\<open>None\<close>, booleans, integers, strings, lists
  and dictionaries.  A dictionary is an association list in insertion order with distinct
  string keys.  Floats, dates, non-string keys and shared or cyclic nodes (YAML aliases)
  are outside the model.
\<close>

datatype yaml =
    YNull
  | YBool bool
  | YInt int
  | YStr string
  | YList "yaml list"
  | YDict "(string \<times> yaml) list"

definition dict_get :: "(string \<times> 'v) list \<Rightarrow> string \<Rightarrow> 'v \<Rightarrow> 'v" where
  \<comment> \<open>\<^verbatim>\<open>d.get(k, dflt)\<close>\<close>
  "dict_get d k dflt = (case map_of d k of Some v \<Rightarrow> v | None \<Rightarrow> dflt)"

fun dict_set :: "string \<Rightarrow> 'v \<Rightarrow> (string \<times> 'v) list \<Rightarrow> (string \<times> 'v) list" where
  \<comment> \<open>\<^verbatim>\<open>d[k] = v\<close>: an existing key keeps its position, a new key goes last\<close>
  "dict_set k v [] = [(k, v)]"
| "dict_set k v ((k', v') # d) = (if k' = k then (k, v) # d else (k', v') # dict_set k v d)"

definition has_key :: "string \<Rightarrow> (string \<times> 'v) list \<Rightarrow> bool" where
  \<comment> \<open>\<^verbatim>\<open>k in d\<close> for a dictionary\<close>
  "has_key k d = (map_of d k \<noteq> None)"

fun py_get :: "yaml \<Rightarrow> string \<Rightarrow> yaml \<Rightarrow> yaml option" where
  \<comment> \<open>\<^verbatim>\<open>x.get(k, dflt)\<close>; only a dictionary has \<^verbatim>\<open>get\<close> (AttributeError otherwise)\<close>
  "py_get (YDict d) k dflt = Some (dict_get d k dflt)"
| "py_get _ k dflt = None"

fun py_in :: "string \<Rightarrow> yaml \<Rightarrow> bool option" where
  \<comment> \<open>\<^verbatim>\<open>k in x\<close> for a string \<open>k\<close>: key of a dictionary, substring of a string, element of
      a list; TypeError on anything else\<close>
  "py_in k (YDict d) = Some (has_key k d)"
| "py_in k (YStr s) = Some (py_contains k s)"
| "py_in k (YList xs) = Some (YStr k \<in> set xs)"
| "py_in k _ = None"

fun truthy :: "yaml \<Rightarrow> bool" where
  \<comment> \<open>Python's truth value\<close>
  "truthy YNull = False"
| "truthy (YBool b) = b"
| "truthy (YInt i) = (i \<noteq> 0)"
| "truthy (YStr s) = (s \<noteq> [])"
| "truthy (YList xs) = (xs \<noteq> [])"
| "truthy (YDict d) = (d \<noteq> [])"

fun is_dict :: "yaml \<Rightarrow> bool" where
  "is_dict (YDict d) = True"
| "is_dict _ = False"

fun py_len :: "yaml \<Rightarrow> nat option" where
  \<comment> \<open>\<^verbatim>\<open>len(x)\<close>; TypeError on a value without length\<close>
  "py_len (YList xs) = Some (length xs)"
| "py_len (YStr s) = Some (length s)"
| "py_len (YDict d) = Some (length d)"
| "py_len _ = None"

fun py_repr :: "yaml \<Rightarrow> string" where
  "py_repr YNull = ''None''"
| "py_repr (YBool b) = (if b then ''True'' else ''False'')"
| "py_repr (YInt i) = dec_int i"
| "py_repr (YStr s) = repr_str s"
| "py_repr (YList xs) = ''['' @ join '', '' (map py_repr xs) @ '']''"
| "py_repr (YDict d) =
     ''{'' @ join '', '' (map (\<lambda>kv. repr_str (fst kv) @ '': '' @ py_repr (snd kv)) d) @ ''}''"

fun py_str :: "yaml \<Rightarrow> string" where
  \<comment> \<open>\<^verbatim>\<open>str(x)\<close>, which is what an f-string inserts\<close>
  "py_str (YStr s) = s"
| "py_str v = py_repr v"

fun strs :: "string list \<Rightarrow> yaml" where
  \<comment> \<open>a list of string literals\<close>
  "strs xs = YList (map YStr xs)"

fun py_iter :: "yaml \<Rightarrow> yaml list option" where
  \<comment> \<open>the elements a \<^verbatim>\<open>for\<close> loop visits: a list's elements, a string's characters, a
      dictionary's keys; TypeError on anything else\<close>
  "py_iter (YList xs) = Some xs"
| "py_iter (YStr s) = Some (map (\<lambda>c. YStr [c]) s)"
| "py_iter (YDict d) = Some (map (\<lambda>kv. YStr (fst kv)) d)"
| "py_iter _ = None"

fun py_getitem :: "yaml \<Rightarrow> string \<Rightarrow> yaml option" where
  \<comment> \<open>\<^verbatim>\<open>x[k]\<close> for a string \<open>k\<close>: KeyError or TypeError give \<open>None\<close>\<close>
  "py_getitem (YDict d) k = map_of d k"
| "py_getitem _ k = None"

fun hashable :: "yaml \<Rightarrow> bool" where
  "hashable (YList xs) = False"
| "hashable (YDict d) = False"
| "hashable _ = True"

fun py_eq :: "yaml \<Rightarrow> yaml \<Rightarrow> bool" where
  \<comment> \<open>\<^verbatim>\<open>==\<close> on hashable values: \<^verbatim>\<open>True == 1\<close> and \<^verbatim>\<open>False == 0\<close>\<close>
  "py_eq (YBool b) (YInt i) = (i = (if b then 1 else 0))"
| "py_eq (YInt i) (YBool b) = (i = (if b then 1 else 0))"
| "py_eq x y = (x = y)"

fun dedup :: "yaml list \<Rightarrow> yaml list" where
  \<comment> \<open>\<^verbatim>\<open>list(set(xs))\<close>; Python leaves the order open, the model keeps first occurrences\<close>
  "dedup [] = []"
| "dedup (x # xs) = x # dedup (filter (\<lambda>y. \<not> py_eq x y) xs)"

fun set_path :: "string list \<Rightarrow> yaml \<Rightarrow> yaml \<Rightarrow> yaml" where
  \<comment> \<open>\<^verbatim>\<open>x[k1][k2]...[kn] = v\<close> on nested dictionaries that have the keys \<open>k1 ... k(n-1)\<close>\<close>
  "set_path [] v x = v"
| "set_path (k # ks) v (YDict d) = YDict (dict_set k (set_path ks v (dict_get d k YNull)) d)"
| "set_path (k # ks) v x = x"

section \<open>Migration: classification tables\<close>

definition tool_security_mapping :: "(string \<times> string) list" where
  "tool_security_mapping =
     [(''read_file'', ''restricted''), (''write_file'', ''privileged''),
      (''delete_file'', ''dangerous''), (''list_directory'', ''safe''),
      (''execute_command'', ''dangerous''), (''system_info'', ''safe''),
      (''process_list'', ''restricted''), (''http_request'', ''restricted''),
      (''ping'', ''safe''), (''network_scan'', ''privileged''),
      (''database_query'', ''privileged''), (''database_write'', ''dangerous''),
      (''default'', ''restricted'')]"

definition security_classification_of :: "string \<Rightarrow> string" where
  \<comment> \<open>\<^verbatim>\<open>self.tool_security_mapping.get(tool_name, self.tool_security_mapping['default'])\<close>\<close>
  "security_classification_of tool_name =
     (case map_of tool_security_mapping tool_name of
        Some c \<Rightarrow> c
      | None \<Rightarrow> ''restricted'')"

definition security_level_of :: "string \<Rightarrow> string" where
  \<comment> \<open>the security-level chain of \<^verbatim>\<open>_classify_capability\<close>\<close>
  "security_level_of file_stem =
     (if any_word_in [''admin'', ''system'', ''root'', ''security''] (lower file_stem)
        then ''privileged''
      else if any_word_in [''file'', ''database'', ''network''] (lower file_stem)
        then ''restricted''
      else if any_word_in [''delete'', ''remove'', ''execute''] (lower file_stem)
        then ''dangerous''
      else ''safe'')"

definition complexity_level_of :: "nat \<Rightarrow> string" where
  "complexity_level_of tools_count =
     (if tools_count > 10 then ''very_complex''
      else if tools_count > 5 then ''complex''
      else if tools_count > 2 then ''moderate''
      else ''simple'')"

definition domain_mapping :: "(string \<times> string) list" where
  "domain_mapping =
     [(''file'', ''filesystem''), (''http'', ''networking''),
      (''database'', ''data_storage''), (''system'', ''system_administration''),
      (''monitoring'', ''observability''), (''git'', ''version_control''),
      (''ai'', ''artificial_intelligence''), (''smart'', ''artificial_intelligence'')]"

definition use_case_mapping :: "(string \<times> string list) list" where
  "use_case_mapping =
     [(''file'', [''file_management'', ''data_processing'']),
      (''http'', [''api_integration'', ''web_services'']),
      (''database'', [''data_storage'', ''data_retrieval'']),
      (''system'', [''system_administration'', ''monitoring'']),
      (''monitoring'', [''health_monitoring'', ''performance_analysis'']),
      (''git'', [''version_control'', ''code_management'']),
      (''ai'', [''intelligent_processing'', ''automation'']),
      (''smart'', [''intelligent_routing'', ''automation''])]"

definition determine_permissions :: "string \<Rightarrow> string list" where
  "determine_permissions classification =
     (let base_permissions = [''tool:execute''];
          permission_mapping =
            [(''safe'', base_permissions),
             (''restricted'', base_permissions @ [''security:validated'']),
             (''privileged'', base_permissions @ [''security:validated'', ''admin:elevated'']),
             (''dangerous'', base_permissions @
                [''security:validated'', ''admin:elevated'', ''approval:required''])]
      in case map_of permission_mapping classification of
           Some ps \<Rightarrow> ps
         | None \<Rightarrow> base_permissions)"

definition name_keywords :: "(string \<times> string list) list" where
  "name_keywords =
     [(''file'', [''file'', ''read'', ''write'', ''filesystem'']),
      (''http'', [''http'', ''request'', ''api'', ''web'']),
      (''database'', [''database'', ''query'', ''data'', ''sql'']),
      (''system'', [''system'', ''process'', ''monitor'', ''health'']),
      (''monitoring'', [''monitor'', ''check'', ''health'', ''status'']),
      (''git'', [''git'', ''version'', ''commit'', ''repository'']),
      (''smart'', [''smart'', ''intelligent'', ''ai'', ''discovery''])]"

definition intent_mapping :: "(string \<times> string) list" where
  "intent_mapping =
     [(''read'', ''data_retrieval''), (''write'', ''data_modification''),
      (''delete'', ''data_removal''), (''list'', ''data_enumeration''),
      (''create'', ''data_creation''), (''update'', ''data_modification''),
      (''execute'', ''command_execution''), (''process'', ''data_processing''),
      (''analyze'', ''data_analysis''), (''monitor'', ''system_monitoring'')]"

definition operation_keywords :: "(string \<times> string list) list" where
  "operation_keywords =
     [(''read'', [''read'', ''retrieve'', ''get'', ''fetch'']),
      (''write'', [''write'', ''save'', ''store'', ''put'']),
      (''delete'', [''delete'', ''remove'', ''unlink'']),
      (''list'', [''list'', ''enumerate'', ''scan'']),
      (''create'', [''create'', ''make'', ''generate'']),
      (''update'', [''update'', ''modify'', ''change'']),
      (''execute'', [''execute'', ''run'', ''invoke'']),
      (''process'', [''process'', ''transform'', ''convert'']),
      (''analyze'', [''analyze'', ''examine'', ''inspect'']),
      (''monitor'', [''monitor'', ''check'', ''watch''])]"

definition complex_tools :: "string list" where
  "complex_tools = [''database'', ''process'', ''analyze'', ''transform'']"

section \<open>Migration: building the enhanced manifest\<close>

text \<open>
  Every function that can raise on an ill-typed document returns an option; \<open>None\<close> is
  the AttributeError or TypeError that leaves the function.
\<close>

definition classify_capability ::
  "string \<Rightarrow> yaml \<Rightarrow> (string \<times> string \<times> string \<times> string list) option" where
  "classify_capability file_stem metadata = do {
     tools \<leftarrow> py_get metadata ''tools'' (YList []);
     tools_count \<leftarrow> py_len tools;
     Some (security_level_of file_stem,
           complexity_level_of tools_count,
           first_match domain_mapping (lower file_stem) ''general'',
           first_match use_case_mapping (lower file_stem) [''general_purpose''])
   }"

definition generate_keywords :: "string \<Rightarrow> yaml \<Rightarrow> yaml option" where
  "generate_keywords file_stem metadata = do {
     has_tags \<leftarrow> py_in ''tags'' metadata;
     tags \<leftarrow> (if has_tags then do { t \<leftarrow> py_getitem metadata ''tags''; py_iter t }
               else Some []);
     let keywords = YStr (replace_char CHR ''_'' CHR '' '' file_stem)
                    # map YStr (first_match name_keywords (lower file_stem) []) @ tags;
     if list_all hashable keywords then Some (YList (dedup keywords)) else None
   }"

definition create_enhanced_metadata :: "yaml \<Rightarrow> string \<Rightarrow> yaml option" where
  "create_enhanced_metadata legacy_metadata file_stem = do {
     name \<leftarrow> py_get legacy_metadata ''name''
               (YStr (''Enhanced '' @ title (replace_char CHR ''_'' CHR '' '' file_stem)));
     description \<leftarrow> py_get legacy_metadata ''description''
               (YStr (''Enhanced '' @ file_stem @ '' with MCP 2025-06-18 compliance''));
     author \<leftarrow> py_get legacy_metadata ''author'' (YStr ''MCP 2025 Enhanced Team'');
     cls \<leftarrow> classify_capability file_stem legacy_metadata;
     keywords \<leftarrow> generate_keywords file_stem legacy_metadata;
     Some (YDict
       [(''name'', YStr (''Enhanced '' @ py_str name)),
        (''description'',
           YStr (py_str description @ '' - MCP 2025-06-18 compliant with AI enhancement'')),
        (''version'', YStr ''3.0.0''),
        (''author'', author),
        (''classification'', YDict
           [(''security_level'', YStr (fst cls)),
            (''complexity_level'', YStr (fst (snd cls))),
            (''domain'', YStr (fst (snd (snd cls)))),
            (''use_cases'', strs (snd (snd (snd cls))))]),
        (''discovery_metadata'', YDict
           [(''primary_keywords'', keywords),
            (''semantic_embeddings'', YBool True),
            (''llm_enhanced'', YBool True),
            (''workflow_enabled'', YBool True)]),
        (''mcp_capabilities'', YDict
           [(''version'', YStr ''2025-06-18''),
            (''supports_cancellation'', YBool True),
            (''supports_progress'', YBool True),
            (''supports_sampling'', YBool False),
            (''supports_validation'', YBool True),
            (''supports_elicitation'', YBool False)])])
   }"

fun enhance_property :: "string \<times> yaml \<Rightarrow> string \<times> yaml" where
  \<comment> \<open>one round of the loop over \<^verbatim>\<open>properties.items()\<close>\<close>
  "enhance_property (prop_name, YDict prop_config) =
     (if py_contains ''path'' (lower prop_name) then
        (prop_name, YDict (dict_set ''validation''
           (YDict [(''path_traversal_protection'', YBool True), (''security_scan'', YBool True)])
           prop_config))
      else if py_contains ''content'' (lower prop_name) then
        (prop_name, YDict (dict_set ''validation''
           (YDict [(''max_size_mb'', YInt 10), (''content_filter'', YBool True)])
           prop_config))
      else (prop_name, YDict prop_config))"
| "enhance_property (prop_name, v) = (prop_name, v)"

definition enhance_input_schema :: "yaml \<Rightarrow> yaml option" where
  \<comment> \<open>the schema that \<^verbatim>\<open>_enhance_input_schema\<close> returns\<close>
  "enhance_input_schema legacy_schema =
     (case legacy_schema of
        YDict d \<Rightarrow>
          (if has_key ''properties'' d then
             (case dict_get d ''properties'' YNull of
                YDict props \<Rightarrow>
                  Some (YDict (dict_set ''additionalProperties'' (YBool False)
                          (dict_set ''properties'' (YDict (map enhance_property props)) d)))
              | _ \<Rightarrow> None)
           else Some (YDict (dict_set ''additionalProperties'' (YBool False) d)))
      | _ \<Rightarrow> None)"

definition enhance_routing :: "yaml \<Rightarrow> yaml option" where
  "enhance_routing legacy_routing = do {
     routing_type \<leftarrow> py_get legacy_routing ''type'' (YStr ''subprocess'');
     config \<leftarrow> py_get legacy_routing ''config'' (YDict []);
     command \<leftarrow> py_get config ''command'' (YStr ''echo'');
     args \<leftarrow> py_get config ''args'' (YList []);
     timeout \<leftarrow> py_get config ''timeout'' (YInt 30);
     Some (YDict
       ([(''type'', YStr (''enhanced_'' @ py_str routing_type)),
         (''primary'', YDict
            [(''command'', command), (''args'', args), (''timeout_seconds'', timeout)])]
        @ (if routing_type = YStr ''subprocess'' then
             [(''fallback'', YDict
                 [(''command'', YStr ''echo''),
                  (''args'', strs [[CHR 0x22] @ ''Operation completed with fallback'' @ [CHR 0x22]]),
                  (''timeout_seconds'', YInt 10)])]
           else [])))
   }"

definition base_config :: "string \<Rightarrow> yaml" where
  "base_config classification =
     YDict [(''classification'', YStr classification),
            (''sandbox'', YDict
               [(''resources'', YDict
                   [(''max_memory_mb'', YInt 256),
                    (''max_cpu_percent'', YInt 30),
                    (''max_execution_seconds'', YInt 60)]),
                (''environment'', YDict [(''readonly_system'', YBool True)])])]"

definition create_security_config :: "string \<Rightarrow> yaml" where
  "create_security_config classification =
     (if classification = ''dangerous'' then
        set_path [''sandbox'', ''resources'', ''max_execution_seconds''] (YInt 30)
          (set_path [''sandbox'', ''resources'', ''max_memory_mb''] (YInt 128)
            (set_path [''approval_workflow''] (YStr ''security_review'')
              (set_path [''requires_approval''] (YBool True) (base_config classification))))
      else if classification = ''privileged'' then
        set_path [''sandbox'', ''resources'', ''max_memory_mb''] (YInt 512)
          (set_path [''requires_approval''] (YBool True) (base_config classification))
      else if classification = ''restricted'' then
        set_path [''sandbox'', ''network''] (YDict [(''allowed'', YBool False)])
          (set_path [''sandbox'', ''filesystem'']
             (YDict [(''denied_patterns'', strs [''/etc/*'', ''/root/*'', ''*.private''])])
             (base_config classification))
      else base_config classification)"

definition create_performance_config :: "string \<Rightarrow> yaml" where
  "create_performance_config tool_name =
     (let is_complex = any_word_in complex_tools (lower tool_name)
      in YDict
        [(''estimated_duration'', YDict
            [(''simple_operation'', YInt (if \<not> is_complex then 5 else 15)),
             (''complex_operation'', YInt (if \<not> is_complex then 30 else 120))]),
         (''complexity'', YStr (if is_complex then ''complex'' else ''moderate'')),
         (''supports_cancellation'', YBool True),
         (''supports_progress'', YBool is_complex),
         (''cache_results'',
            YBool (py_startswith tool_name ''read'' \<or> py_startswith tool_name ''get'')),
         (''cache_ttl_seconds'', YInt (if py_startswith tool_name ''read'' then 300 else 0))])"

definition determine_intent :: "string \<Rightarrow> string" where
  "determine_intent tool_name = first_match intent_mapping (lower tool_name) ''general_operation''"

definition determine_operations :: "string \<Rightarrow> string list" where
  "determine_operations tool_name =
     (let operations = first_match operation_keywords (lower tool_name) []
      in if operations \<noteq> [] then operations else [''operate''])"

definition create_ai_discovery :: "string \<Rightarrow> yaml \<Rightarrow> yaml" where
  "create_ai_discovery tool_name description =
     YDict
       [(''description'', YStr (''AI-enhanced '' @ py_str description
            @ '' with intelligent processing and security validation'')),
        (''usage_patterns'', strs
            [''use '' @ tool_name @ '' to {action}'',
             ''help me {accomplish_task} with '' @ tool_name,
             tool_name @ '' for {specific_purpose}'']),
        (''semantic_context'', YDict
            [(''primary_intent'', YStr (determine_intent tool_name)),
             (''operations'', strs (determine_operations tool_name)),
             (''data_types'', strs [''structured'', ''unstructured''])]),
        (''workflow_integration'', YDict
            [(''typically_follows'', YList []),
             (''typically_precedes'', YList []),
             (''chain_compatibility'', strs [''general_workflow''])])]"

definition param_intel :: "string \<times> yaml \<Rightarrow> (string \<times> yaml) option" where
  \<comment> \<open>one round of the loop of \<^verbatim>\<open>_create_parameter_intelligence\<close>\<close>
  "param_intel item = do {
     smart_default \<leftarrow> py_get (snd item) ''default'' YNull;
     Some (fst item, YDict
       ([(''smart_default'', smart_default),
         (''validation'', YList
            [YDict [(''rule'', YStr ''required_validation''),
                    (''message'', YStr (fst item @ '' must be provided and valid''))]])]
        @ (if py_contains ''path'' (lower (fst item)) then
             [(''smart_suggestions'', YList
                 [YDict [(''pattern'', YStr ''*''),
                         (''description'', YStr ''File system paths''),
                         (''examples'', strs [''/path/to/file'', ''./relative/path''])]])]
           else [])))
   }"

definition create_parameter_intelligence :: "yaml \<Rightarrow> yaml option" where
  "create_parameter_intelligence input_schema = do {
     properties \<leftarrow> py_get input_schema ''properties'' (YDict []);
     items \<leftarrow> (case properties of YDict ps \<Rightarrow> Some ps | _ \<Rightarrow> None);
     intelligence \<leftarrow> those (map param_intel items);
     Some (YDict intelligence)
   }"

definition sub_operations :: "yaml" where
  "sub_operations =
     YList
       [YDict [(''id'', YStr ''initialization''), (''name'', YStr ''Initializing operation''),
               (''estimated_percentage'', YInt 20)],
        YDict [(''id'', YStr ''processing''), (''name'', YStr ''Processing data''),
               (''estimated_percentage'', YInt 70)],
        YDict [(''id'', YStr ''finalization''), (''name'', YStr ''Completing operation''),
               (''estimated_percentage'', YInt 10)]]"

definition create_monitoring_config :: "string \<Rightarrow> yaml" where
  "create_monitoring_config tool_name =
     (let is_complex = any_word_in complex_tools (lower tool_name);
          config = YDict
            [(''progress_tracking'', YDict
                [(''enabled'', YBool is_complex),
                 (''granularity'', YStr (if is_complex then ''detailed'' else ''basic''))]),
             (''cancellation'', YDict
                [(''enabled'', YBool True),
                 (''graceful_timeout_seconds'', YInt (if is_complex then 30 else 10)),
                 (''cleanup_required'', YBool is_complex)]),
             (''metrics'', YDict
                [(''track_execution_time'', YBool True),
                 (''track_success_rate'', YBool True),
                 (''custom_metrics'', strs [tool_name @ ''_operations_completed''])])]
      in if is_complex
         then set_path [''progress_tracking'', ''sub_operations''] sub_operations config
         else config)"

definition migrate_tool_to_enhanced :: "yaml \<Rightarrow> yaml option" where
  "migrate_tool_to_enhanced legacy_tool = do {
     name \<leftarrow> py_get legacy_tool ''name'' (YStr ''unknown_tool'');
     description \<leftarrow> py_get legacy_tool ''description'' (YStr (''Enhanced '' @ py_str name));
     input_schema \<leftarrow> py_get legacy_tool ''inputSchema'' (YDict []);
     routing \<leftarrow> py_get legacy_tool ''routing'' (YDict []);
     hidden \<leftarrow> py_get legacy_tool ''hidden'' (YBool True);
     tool_name \<leftarrow> (case name of YStr s \<Rightarrow> Some s | _ \<Rightarrow> None);
     let security_classification = security_classification_of tool_name;
     enhanced_schema \<leftarrow> enhance_input_schema input_schema;
     enhanced_routing \<leftarrow> enhance_routing routing;
     parameter_intelligence \<leftarrow> create_parameter_intelligence input_schema;
     Some (YDict
       [(''name'', YStr (''enhanced_'' @ tool_name)),
        (''core'', YDict
           [(''description'', YStr (''AI-enhanced '' @ py_str description
                @ '' with MCP 2025-06-18 compliance'')),
            (''input_schema'', enhanced_schema)]),
        (''execution'', YDict
           [(''routing'', enhanced_routing),
            (''security'', create_security_config security_classification),
            (''performance'', create_performance_config tool_name)]),
        (''discovery'', YDict
           [(''ai_enhanced'', create_ai_discovery tool_name description),
            (''parameter_intelligence'', parameter_intelligence)]),
        (''monitoring'', create_monitoring_config tool_name),
        (''access'', YDict
           [(''hidden'', hidden),
            (''enabled'', YBool True),
            (''requires_permissions'', strs (determine_permissions security_classification)),
            (''user_groups'',
               (if security_classification = ''safe'' then strs [''all'']
                else strs [''administrators''])),
            (''approval_required'',
               YBool (security_classification \<in> set [''dangerous'', ''privileged'']))])])
   }"

definition migrate_yaml_content :: "yaml \<Rightarrow> string \<Rightarrow> yaml option" where
  "migrate_yaml_content legacy_content file_stem = do {
     legacy_metadata \<leftarrow> py_get legacy_content ''metadata'' (YDict []);
     legacy_tools \<leftarrow> py_get legacy_content ''tools'' (YList []);
     enhanced_metadata \<leftarrow> create_enhanced_metadata legacy_metadata file_stem;
     tools \<leftarrow> py_iter legacy_tools;
     enhanced_tools \<leftarrow> those (map migrate_tool_to_enhanced tools);
     Some (YDict [(''metadata'', enhanced_metadata), (''tools'', YList enhanced_tools)])
   }"

section \<open>Validation\<close>

datatype ValidationLevel = ERROR | WARNING | INFO | SUCCESS

record ValidationResult =
  file_path :: string
  level :: ValidationLevel
  message :: string
  details :: "string option"

record validator =
  strict_mode :: bool
  results :: "ValidationResult list"

definition new_validator :: "bool \<Rightarrow> validator" where
  \<comment> \<open>\<^verbatim>\<open>YamlMigrationValidator(strict_mode)\<close>\<close>
  "new_validator strict = \<lparr>strict_mode = strict, results = []\<rparr>"

definition diag :: "string \<Rightarrow> ValidationLevel \<Rightarrow> string \<Rightarrow> ValidationResult" where
  \<comment> \<open>\<^verbatim>\<open>ValidationResult(file_path, level, message)\<close>, without details\<close>
  "diag fp lv msg = \<lparr>file_path = fp, level = lv, message = msg, details = None\<rparr>"

definition required_enhanced_tool_sections :: "string list" where
  "required_enhanced_tool_sections =
     [''name'', ''core'', ''execution'', ''discovery'', ''monitoring'', ''access'']"

definition valid_security_levels :: "string list" where
  "valid_security_levels =
     [''safe'', ''restricted'', ''mixed'', ''privileged'', ''dangerous'', ''blocked'']"

definition valid_complexity_levels :: "string list" where
  "valid_complexity_levels = [''simple'', ''moderate'', ''complex'', ''varied'', ''very_complex'']"

fun in_strs :: "yaml \<Rightarrow> string list \<Rightarrow> bool" where
  \<comment> \<open>\<^verbatim>\<open>x in xs\<close> for a list of strings: only an equal string is a member\<close>
  "in_strs (YStr s) xs = (s \<in> set xs)"
| "in_strs _ xs = False"

definition tool_label :: "yaml \<Rightarrow> string" where
  \<comment> \<open>the prefix \<^verbatim>\<open>Tool '{tool_name}'\<close> of the per-tool messages\<close>
  "tool_label tool_name = ''Tool '' @ [CHR 0x27] @ py_str tool_name @ [CHR 0x27]"

definition enhanced_sections :: "(string \<times> yaml) list \<Rightarrow> nat" where
  "enhanced_sections first_tool =
     length (filter (\<lambda>s. has_key s first_tool)
               [''core'', ''execution'', ''discovery'', ''monitoring'', ''access''])"

definition is_enhanced_format :: "yaml \<Rightarrow> bool" where
  "is_enhanced_format content =
     (case content of
        YDict c \<Rightarrow>
          (if (case dict_get c ''metadata'' (YDict []) of
                 YDict metadata \<Rightarrow>
                   has_key ''classification'' metadata
                   \<or> has_key ''discovery_metadata'' metadata
                   \<or> has_key ''mcp_capabilities'' metadata
               | _ \<Rightarrow> False)
           then True
           else (case dict_get c ''tools'' (YList []) of
                   YList (YDict first_tool # rest) \<Rightarrow> enhanced_sections first_tool \<ge> 3
                 | _ \<Rightarrow> False))
      | _ \<Rightarrow> False)"

definition validate_classification ::
  "string \<Rightarrow> (string \<times> yaml) list \<Rightarrow> ValidationResult list" where
  "validate_classification fp classification =
     (let security_level = dict_get classification ''security_level'' YNull;
          complexity_level = dict_get classification ''complexity_level'' YNull
      in (if truthy security_level \<and> \<not> in_strs security_level valid_security_levels
          then [diag fp ERROR (''Invalid security_level: '' @ py_str security_level
                  @ ''. Must be one of: '' @ join '', '' valid_security_levels)]
          else [])
       @ (if truthy complexity_level \<and> \<not> in_strs complexity_level valid_complexity_levels
          then [diag fp ERROR (''Invalid complexity_level: '' @ py_str complexity_level
                  @ ''. Must be one of: '' @ join '', '' valid_complexity_levels)]
          else []))"

definition validate_discovery_metadata ::
  "string \<Rightarrow> (string \<times> yaml) list \<Rightarrow> ValidationResult list" where
  "validate_discovery_metadata fp discovery_metadata =
     (let missing_fields = filter (\<lambda>f. \<not> has_key f discovery_metadata)
            [''primary_keywords'', ''semantic_embeddings'', ''llm_enhanced'', ''workflow_enabled'']
      in if missing_fields \<noteq> []
         then [diag fp WARNING (''Missing recommended discovery_metadata fields: ''
                 @ join '', '' missing_fields)]
         else [])"

definition validate_mcp_capabilities ::
  "string \<Rightarrow> (string \<times> yaml) list \<Rightarrow> ValidationResult list" where
  "validate_mcp_capabilities fp mcp_capabilities =
     (let version = dict_get mcp_capabilities ''version'' YNull;
          missing_capabilities = filter (\<lambda>c. \<not> has_key c mcp_capabilities)
            [''supports_cancellation'', ''supports_progress'', ''supports_sampling'',
             ''supports_validation'', ''supports_elicitation'']
      in (if version \<noteq> YStr ''2025-06-18''
          then [diag fp ERROR (''Invalid MCP version: '' @ py_str version
                  @ ''. Expected: 2025-06-18'')]
          else [])
       @ (if missing_capabilities \<noteq> []
          then [diag fp WARNING (''Missing MCP capability declarations: ''
                  @ join '', '' missing_capabilities)]
          else []))"

definition validate_enhanced_metadata :: "string \<Rightarrow> yaml \<Rightarrow> ValidationResult list" where
  "validate_enhanced_metadata fp metadata =
     (case metadata of
        YDict m \<Rightarrow>
          (let missing_fields =
                 filter (\<lambda>f. \<not> has_key f m \<or> \<not> truthy (dict_get m f YNull))
                   [''name'', ''description'', ''version'', ''author'']
           in (if missing_fields \<noteq> []
               then [diag fp ERROR (''Missing required metadata fields: ''
                       @ join '', '' missing_fields)]
               else [])
            @ (case dict_get m ''classification'' (YDict []) of
                 YDict classification \<Rightarrow> validate_classification fp classification
               | _ \<Rightarrow> [])
            @ (case dict_get m ''discovery_metadata'' (YDict []) of
                 YDict discovery_metadata \<Rightarrow> validate_discovery_metadata fp discovery_metadata
               | _ \<Rightarrow> [])
            @ (case dict_get m ''mcp_capabilities'' (YDict []) of
                 YDict mcp_capabilities \<Rightarrow> validate_mcp_capabilities fp mcp_capabilities
               | _ \<Rightarrow> []))
      | _ \<Rightarrow> [diag fp ERROR ''Enhanced format requires metadata object''])"

text \<open>
  The per-tool checks call \<^verbatim>\<open>get\<close> and \<^verbatim>\<open>in\<close> on whatever the document holds; \<open>None\<close>
  is the AttributeError or TypeError, which nothing in the validator catches.
\<close>

definition validate_tool_core :: "string \<Rightarrow> yaml \<Rightarrow> yaml \<Rightarrow> ValidationResult list option" where
  "validate_tool_core fp tool_name core = do {
     description \<leftarrow> py_get core ''description'' YNull;
     input_schema \<leftarrow> py_get core ''input_schema'' YNull;
     Some ((if \<not> truthy description
            then [diag fp ERROR (tool_label tool_name @ '': Core section missing description'')]
            else [])
         @ (if \<not> truthy input_schema \<or> \<not> is_dict input_schema
            then [diag fp ERROR
                    (tool_label tool_name @ '': Core section missing valid input_schema'')]
            else []))
   }"

definition validate_tool_execution ::
  "string \<Rightarrow> yaml \<Rightarrow> yaml \<Rightarrow> ValidationResult list option" where
  "validate_tool_execution fp tool_name execution = do {
     routing \<leftarrow> py_get execution ''routing'' (YDict []);
     routing_type \<leftarrow> py_get routing ''type'' YNull;
     security \<leftarrow> py_get execution ''security'' (YDict []);
     classification \<leftarrow> py_get security ''classification'' YNull;
     Some ((if \<not> truthy routing_type
            then [diag fp ERROR
                    (tool_label tool_name @ '': Execution section missing routing type'')]
            else [])
         @ (if \<not> truthy classification
            then [diag fp WARNING
                    (tool_label tool_name @ '': Execution section missing security classification'')]
            else []))
   }"

definition validate_tool_discovery ::
  "string \<Rightarrow> yaml \<Rightarrow> yaml \<Rightarrow> ValidationResult list option" where
  "validate_tool_discovery fp tool_name discovery = do {
     ai_enhanced \<leftarrow> py_get discovery ''ai_enhanced'' (YDict []);
     description \<leftarrow> py_get ai_enhanced ''description'' YNull;
     Some (if \<not> truthy description
           then [diag fp WARNING
                   (tool_label tool_name @ '': Discovery section missing AI-enhanced description'')]
           else [])
   }"

definition validate_tool_monitoring ::
  "string \<Rightarrow> yaml \<Rightarrow> yaml \<Rightarrow> ValidationResult list option" where
  "validate_tool_monitoring fp tool_name monitoring = do {
     progress_tracking \<leftarrow> py_get monitoring ''progress_tracking'' (YDict []);
     progress_enabled \<leftarrow> py_in ''enabled'' progress_tracking;
     cancellation \<leftarrow> py_get monitoring ''cancellation'' (YDict []);
     cancellation_enabled \<leftarrow> py_in ''enabled'' cancellation;
     Some ((if \<not> progress_enabled
            then [diag fp WARNING
                    (tool_label tool_name @ '': Monitoring section missing progress_tracking.enabled'')]
            else [])
         @ (if \<not> cancellation_enabled
            then [diag fp WARNING
                    (tool_label tool_name @ '': Monitoring section missing cancellation.enabled'')]
            else []))
   }"

definition validate_tool_access ::
  "string \<Rightarrow> yaml \<Rightarrow> yaml \<Rightarrow> ValidationResult list option" where
  "validate_tool_access fp tool_name access = do {
     present \<leftarrow> those (map (\<lambda>f. py_in f access)
                  [''hidden'', ''enabled'', ''requires_permissions'', ''user_groups'']);
     let missing_fields = map fst (filter (\<lambda>fb. \<not> snd fb)
           (zip [''hidden'', ''enabled'', ''requires_permissions'', ''user_groups''] present));
     Some (if missing_fields \<noteq> []
           then [diag fp WARNING (tool_label tool_name @ '': Access section missing fields: ''
                   @ join '', '' missing_fields)]
           else [])
   }"

definition validate_enhanced_tool ::
  "string \<Rightarrow> yaml \<Rightarrow> nat \<Rightarrow> ValidationResult list option" where
  "validate_enhanced_tool fp tool index = do {
     tool_name \<leftarrow> py_get tool ''name'' (YStr (''tool_'' @ dec_nat index));
     present \<leftarrow> those (map (\<lambda>s. py_in s tool) required_enhanced_tool_sections);
     let missing_sections = map fst (filter (\<lambda>sb. \<not> snd sb)
           (zip required_enhanced_tool_sections present));
     if missing_sections \<noteq> []
     then Some [diag fp ERROR (tool_label tool_name @ '': Missing required sections: ''
                  @ join '', '' missing_sections)]
     else do {
       core \<leftarrow> py_get tool ''core'' (YDict []);
       r1 \<leftarrow> validate_tool_core fp tool_name core;
       execution \<leftarrow> py_get tool ''execution'' (YDict []);
       r2 \<leftarrow> validate_tool_execution fp tool_name execution;
       discovery \<leftarrow> py_get tool ''discovery'' (YDict []);
       r3 \<leftarrow> validate_tool_discovery fp tool_name discovery;
       monitoring \<leftarrow> py_get tool ''monitoring'' (YDict []);
       r4 \<leftarrow> validate_tool_monitoring fp tool_name monitoring;
       access \<leftarrow> py_get tool ''access'' (YDict []);
       r5 \<leftarrow> validate_tool_access fp tool_name access;
       Some (r1 @ r2 @ r3 @ r4 @ r5)
     }
   }"

definition validate_enhanced_format :: "string \<Rightarrow> yaml \<Rightarrow> ValidationResult list option" where
  "validate_enhanced_format fp content = do {
     metadata \<leftarrow> py_get content ''metadata'' (YDict []);
     tools \<leftarrow> py_get content ''tools'' (YList []);
     if \<not> truthy tools
     then Some (validate_enhanced_metadata fp metadata
                @ [diag fp ERROR ''Enhanced format must contain at least one tool''])
     else do {
       ts \<leftarrow> py_iter tools;
       rs \<leftarrow> those (map (\<lambda>it. validate_enhanced_tool fp (snd it) (fst it)) (enumerate 0 ts));
       Some (validate_enhanced_metadata fp metadata @ concat rs)
     }
   }"

definition validate_legacy_tool ::
  "string \<Rightarrow> yaml \<Rightarrow> nat \<Rightarrow> ValidationResult list option" where
  \<comment> \<open>one round of the loop of \<^verbatim>\<open>_validate_legacy_format\<close>\<close>
  "validate_legacy_tool fp tool i = do {
     tool_name \<leftarrow> py_get tool ''name'' (YStr (''tool_'' @ dec_nat i));
     name \<leftarrow> py_get tool ''name'' YNull;
     description \<leftarrow> py_get tool ''description'' YNull;
     input_schema \<leftarrow> py_get tool ''inputSchema'' YNull;
     routing \<leftarrow> py_get tool ''routing'' (YDict []);
     routing_type \<leftarrow> py_get routing ''type'' YNull;
     Some ((if \<not> truthy name
            then [diag fp ERROR (''Tool '' @ dec_nat i @ '': Missing name'')] else [])
         @ (if \<not> truthy description
            then [diag fp ERROR (tool_label tool_name @ '': Missing description'')] else [])
         @ (if \<not> truthy input_schema
            then [diag fp ERROR (tool_label tool_name @ '': Missing inputSchema'')] else [])
         @ (if \<not> truthy routing_type
            then [diag fp ERROR (tool_label tool_name @ '': Missing routing type'')] else []))
   }"

definition validate_legacy_format :: "string \<Rightarrow> yaml \<Rightarrow> ValidationResult list option" where
  "validate_legacy_format fp content = do {
     tools \<leftarrow> py_get content ''tools'' (YList []);
     if \<not> truthy tools
     then Some [diag fp ERROR ''Legacy format must contain at least one tool'']
     else do {
       ts \<leftarrow> py_iter tools;
       rs \<leftarrow> those (map (\<lambda>it. validate_legacy_tool fp (snd it) (fst it)) (enumerate 0 ts));
       Some (concat rs)
     }
   }"

text \<open>
  What the validator finds at a path: no file, a file that \<^verbatim>\<open>yaml.safe_load\<close> rejects
  (with the text of the YAMLError), a file that cannot be read (with the text of the
  exception), or a parsed document.
\<close>

datatype file_input = Missing | BadYaml string | Unreadable string | Parsed yaml

definition add_results :: "validator \<Rightarrow> ValidationResult list \<Rightarrow> validator" where
  \<comment> \<open>\<^verbatim>\<open>self.results.append(...)\<close>, for each result in turn\<close>
  "add_results v rs = v\<lparr>results := results v @ rs\<rparr>"

definition validate_file :: "validator \<Rightarrow> string \<Rightarrow> file_input \<Rightarrow> validator option" where
  "validate_file v fp inp =
     (case inp of
        Missing \<Rightarrow> Some (add_results v [diag fp ERROR (''File does not exist: '' @ fp)])
      | BadYaml e \<Rightarrow>
          Some (add_results v
            [\<lparr>file_path = fp, level = ERROR, message = ''Invalid YAML syntax'', details = Some e\<rparr>])
      | Unreadable e \<Rightarrow>
          Some (add_results v
            [\<lparr>file_path = fp, level = ERROR, message = ''Failed to read file'', details = Some e\<rparr>])
      | Parsed content \<Rightarrow>
          (let is_enhanced = is_enhanced_format content;
               format_type = (if is_enhanced then ''Enhanced MCP 2025-06-18'' else ''Legacy'')
           in do {
             rs \<leftarrow> (if is_enhanced then validate_enhanced_format fp content
                    else validate_legacy_format fp content);
             Some (add_results v (diag fp INFO (''Detected format: '' @ format_type) # rs))
           }))"

fun validate_files :: "validator \<Rightarrow> (string \<times> file_input) list \<Rightarrow> validator option" where
  \<comment> \<open>the loop \<^verbatim>\<open>for yaml_file in yaml_files: self.validate_file(str(yaml_file))\<close>\<close>
  "validate_files v [] = Some v"
| "validate_files v (f # fs) = do { v' \<leftarrow> validate_file v (fst f) (snd f); validate_files v' fs }"

definition validate_directory ::
  "validator \<Rightarrow> string \<Rightarrow> bool \<Rightarrow> (string \<times> file_input) list \<Rightarrow> validator option" where
  \<comment> \<open>\<open>exists\<close>: the directory exists; \<open>yaml_files\<close>: what the two globs find in it\<close>
  "validate_directory v directory_path exists yaml_files =
     (if \<not> exists
      then Some (add_results v
             [diag directory_path ERROR (''Directory does not exist: '' @ directory_path)])
      else if yaml_files = []
      then Some (add_results v
             [diag directory_path WARNING ''No YAML files found in directory''])
      else validate_files
             (add_results v [diag directory_path INFO
                (''Found '' @ dec_nat (length yaml_files) @ '' YAML files to validate'')])
             yaml_files)"

definition errors_of :: "ValidationResult list \<Rightarrow> ValidationResult list" where
  \<comment> \<open>\<^verbatim>\<open>[r for r in self.results if r.level == ValidationLevel.ERROR]\<close>\<close>
  "errors_of rs = filter (\<lambda>r. level r = ERROR) rs"

definition print_results :: "validator \<Rightarrow> bool" where
  \<comment> \<open>the verdict \<^verbatim>\<open>print_results\<close> returns; what it prints is not modelled\<close>
  "print_results v = (if errors_of (results v) \<noteq> [] then False else True)"

datatype target =
    NoPath
  | DirPath string "(string \<times> file_input) list"
  | FilePath string file_input

definition validator_main :: "bool \<Rightarrow> target \<Rightarrow> (ValidationResult list \<times> nat) option" where
  \<comment> \<open>\<^verbatim>\<open>main\<close> of the validator with \<^verbatim>\<open>--strict\<close> set or not: the diagnostics and the exit
      status; \<open>None\<close> is an exception that ends the program\<close>
  "validator_main strict t =
     (case t of
        NoPath \<Rightarrow> Some ([], 1)
      | DirPath p yaml_files \<Rightarrow> do {
          v \<leftarrow> validate_directory (new_validator strict) p True yaml_files;
          Some (results v, if print_results v then 0 else 1)
        }
      | FilePath p inp \<Rightarrow> do {
          v \<leftarrow> validate_file (new_validator strict) p inp;
          Some (results v, if print_results v then 0 else 1)
        })"

section \<open>Migration runs\<close>

text \<open>
  A file of the input directory, as the run sees it: its path, the stem of its name, what
  opening and parsing it gives (the text of the exception, or the document), the text of
  the exception that Python raises when migrating the document fails on a value of the
  wrong type, and the texts of the exceptions that creating the directory of the output
  file and writing the output file raise, if they do.
\<close>

datatype file_load = LoadFails string | Loaded yaml

record yaml_file =
  yf_path :: string
  yf_stem :: string
  yf_load :: file_load
  yf_content_error :: string
  yf_mkdir_error :: "string option"
  yf_write_error :: "string option"

text \<open>
  The output root of a directory run: the \<^verbatim>\<open>output_dir\<close> argument, whether that path
  exists, and the text of the exception that creating it raises, if it does.
\<close>

record output_root =
  output_dir :: "string option"
  output_exists :: bool
  output_mkdir_error :: "string option"

record MigrationStats =
  files_processed :: nat
  files_migrated :: nat
  files_skipped :: nat
  errors :: "string list"

definition init_stats :: MigrationStats where
  "init_stats = \<lparr>files_processed = 0, files_migrated = 0, files_skipped = 0, errors = []\<rparr>"

definition already_enhanced_check :: "yaml \<Rightarrow> bool option" where
  \<comment> \<open>the body of the \<^verbatim>\<open>try\<close> of \<^verbatim>\<open>_is_already_enhanced\<close>, after the file is loaded\<close>
  "already_enhanced_check content = do {
     metadata \<leftarrow> py_get content ''metadata'' (YDict []);
     a \<leftarrow> py_in ''classification'' metadata;
     if a then Some True else do {
       b \<leftarrow> py_in ''discovery_metadata'' metadata;
       if b then Some True else do {
         c \<leftarrow> py_in ''mcp_capabilities'' metadata;
         if c then Some True
         else Some (py_contains ''MCP 2025-06-18'' (py_str content))
       }
     }
   }"

definition is_already_enhanced :: "file_load \<Rightarrow> bool" where
  \<comment> \<open>the bare \<^verbatim>\<open>except\<close> turns every exception into \<^verbatim>\<open>False\<close>\<close>
  "is_already_enhanced ld =
     (case ld of
        LoadFails e \<Rightarrow> False
      | Loaded content \<Rightarrow>
          (case already_enhanced_check content of Some b \<Rightarrow> b | None \<Rightarrow> False))"

definition migrate_file :: "MigrationStats \<Rightarrow> yaml_file \<Rightarrow> string + MigrationStats" where
  \<comment> \<open>\<open>Inl e\<close>: the exception with text \<open>e\<close> leaves \<^verbatim>\<open>migrate_file\<close>; the counters are
      incremented after the last statement that can raise.  In a directory run the output
      file is always given, so no backup is made\<close>
  "migrate_file stats f =
     (case yf_load f of
        LoadFails e \<Rightarrow> Inl e
      | Loaded legacy_content \<Rightarrow>
          (case migrate_yaml_content legacy_content (yf_stem f) of
             None \<Rightarrow> Inl (yf_content_error f)
           | Some enhanced_content \<Rightarrow>
               (case yf_write_error f of
                  Some e \<Rightarrow> Inl e
                | None \<Rightarrow>
                    Inr (stats\<lparr>files_processed := files_processed stats + 1,
                               files_migrated := files_migrated stats + 1\<rparr>))))"

definition migrate_attempt :: "MigrationStats \<Rightarrow> yaml_file \<Rightarrow> string + MigrationStats" where
  \<comment> \<open>the statements of the \<^verbatim>\<open>try\<close> block after the skip test: create the directory of
      the output file, then \<^verbatim>\<open>migrate_file\<close>\<close>
  "migrate_attempt stats f =
     (case yf_mkdir_error f of
        Some e \<Rightarrow> Inl e
      | None \<Rightarrow> migrate_file stats f)"

definition process_file :: "MigrationStats \<Rightarrow> yaml_file \<Rightarrow> MigrationStats" where
  \<comment> \<open>one round of the loop of \<^verbatim>\<open>migrate_directory\<close>, with its \<^verbatim>\<open>try ... except Exception\<close>\<close>
  "process_file stats f =
     (if is_already_enhanced (yf_load f)
      then stats\<lparr>files_skipped := files_skipped stats + 1\<rparr>
      else (case migrate_attempt stats f of
              Inr stats' \<Rightarrow> stats'
            | Inl e \<Rightarrow>
                stats\<lparr>errors := errors stats @ [''Failed to migrate '' @ yf_path f @ '': '' @ e]\<rparr>))"

datatype run_error = FileNotFoundError string | OSError string

definition create_output_root :: "output_root \<Rightarrow> string option" where
  \<comment> \<open>\<^verbatim>\<open>if output_dir and not output_path.exists(): output_path.mkdir(...)\<close>, which stands
      before the loop and outside every \<^verbatim>\<open>try\<close>: the text of the exception it raises, if any\<close>
  "create_output_root out =
     (case output_dir out of
        None \<Rightarrow> None
      | Some d \<Rightarrow> (if d \<noteq> [] \<and> \<not> output_exists out then output_mkdir_error out else None))"

definition migrate_directory ::
  "MigrationStats \<Rightarrow> string \<Rightarrow> bool \<Rightarrow> output_root \<Rightarrow> yaml_file list
     \<Rightarrow> run_error + MigrationStats" where
  \<comment> \<open>\<open>exists\<close>: the input directory exists; \<open>yaml_files\<close>: what the two globs find in it\<close>
  "migrate_directory stats input_dir exists out yaml_files =
     (if \<not> exists
      then Inl (FileNotFoundError (''Input directory does not exist: '' @ input_dir))
      else (case create_output_root out of
              Some e \<Rightarrow> Inl (OSError e)
            | None \<Rightarrow> Inr (foldl process_file stats yaml_files)))"

datatype outcome = Skipped | Migrated | Failed

definition outcome_of :: "yaml_file \<Rightarrow> outcome" where
  \<comment> \<open>where one file of a directory run ends up\<close>
  "outcome_of f =
     (if is_already_enhanced (yf_load f) then Skipped
      else (case migrate_attempt init_stats f of Inr s \<Rightarrow> Migrated | Inl e \<Rightarrow> Failed))"

definition count_outcome :: "outcome \<Rightarrow> yaml_file list \<Rightarrow> nat" where
  "count_outcome out fs = length (filter (\<lambda>f. outcome_of f = out) fs)"

section \<open>Schema enhancement on the object store\<close>

text \<open>
  \<^verbatim>\<open>_enhance_input_schema\<close> copies the legacy schema with \<^verbatim>\<open>dict.copy()\<close> and then
  assigns into the property configurations it reaches through the copy.  Whether the
  legacy schema changes depends on which dictionaries are shared, so here the dictionaries
  and lists live in a store and values refer to them by address.  A new object gets the
  next free address.
\<close>

type_synonym addr = nat

datatype pval = VNone | VBool bool | VInt int | VStr string | VRef addr

datatype pobj = ODict "(string \<times> pval) list" | OList "pval list"

type_synonym store = "pobj list"

definition alloc :: "store \<Rightarrow> pobj \<Rightarrow> addr \<times> store" where
  "alloc h ob = (length h, h @ [ob])"

fun deref :: "store \<Rightarrow> pval \<Rightarrow> pobj option" where
  "deref h (VRef a) = (if a < length h then Some (h ! a) else None)"
| "deref h _ = None"

fun enhance_properties :: "store \<Rightarrow> (string \<times> pval) list \<Rightarrow> store" where
  \<comment> \<open>the loop over \<^verbatim>\<open>enhanced_schema['properties'].items()\<close>\<close>
  "enhance_properties h [] = h"
| "enhance_properties h ((prop_name, prop_config) # items) =
     (case prop_config of
        VRef a \<Rightarrow>
          (case deref h prop_config of
             Some (ODict cfg) \<Rightarrow>
               (if py_contains ''path'' (lower prop_name) then
                  (let (v, h1) = alloc h (ODict [(''path_traversal_protection'', VBool True),
                                                 (''security_scan'', VBool True)])
                   in enhance_properties
                        (h1[a := ODict (dict_set ''validation'' (VRef v) cfg)]) items)
                else if py_contains ''content'' (lower prop_name) then
                  (let (v, h1) = alloc h (ODict [(''max_size_mb'', VInt 10),
                                                 (''content_filter'', VBool True)])
                   in enhance_properties
                        (h1[a := ODict (dict_set ''validation'' (VRef v) cfg)]) items)
                else enhance_properties h items)
           | _ \<Rightarrow> enhance_properties h items)
      | _ \<Rightarrow> enhance_properties h items)"

definition set_additional_properties :: "store \<Rightarrow> addr \<Rightarrow> store option" where
  \<comment> \<open>\<^verbatim>\<open>enhanced_schema['additionalProperties'] = False\<close>\<close>
  "set_additional_properties h e =
     (case deref h (VRef e) of
        Some (ODict d) \<Rightarrow> Some (h[e := ODict (dict_set ''additionalProperties'' (VBool False) d)])
      | _ \<Rightarrow> None)"

definition enhance_input_schema_st :: "store \<Rightarrow> pval \<Rightarrow> (pval \<times> store) option" where
  \<comment> \<open>the returned schema and the store after the call; \<open>None\<close> when the call raises\<close>
  "enhance_input_schema_st h legacy_schema =
     (case deref h legacy_schema of
        Some (ODict d) \<Rightarrow>
          (let (e, h1) = alloc h (ODict d)
           in if has_key ''properties'' d then
                (case deref h1 (dict_get d ''properties'' VNone) of
                   Some (ODict props) \<Rightarrow>
                     map_option (Pair (VRef e))
                       (set_additional_properties (enhance_properties h1 props) e)
                 | _ \<Rightarrow> None)
              else map_option (Pair (VRef e)) (set_additional_properties h1 e))
      | _ \<Rightarrow> None)"

fun reify :: "nat \<Rightarrow> store \<Rightarrow> pval \<Rightarrow> yaml option" where
  \<comment> \<open>the document a value stands for, read to the given depth\<close>
  "reify 0 h v = None"
| "reify (Suc n) h VNone = Some YNull"
| "reify (Suc n) h (VBool b) = Some (YBool b)"
| "reify (Suc n) h (VInt i) = Some (YInt i)"
| "reify (Suc n) h (VStr s) = Some (YStr s)"
| "reify (Suc n) h (VRef a) =
     (case deref h (VRef a) of
        Some (ODict d) \<Rightarrow>
          map_option YDict
            (those (map (\<lambda>kv. map_option (Pair (fst kv)) (reify n h (snd kv))) d))
      | Some (OList xs) \<Rightarrow> map_option YList (those (map (reify n h) xs))
      | None \<Rightarrow> None)"

section \<open>Example documents\<close>

definition read_file_tool :: yaml where
  \<comment> \<open>a legacy tool with one path parameter\<close>
  "read_file_tool =
     YDict [(''name'', YStr ''read_file''),
            (''description'', YStr ''Reads a file''),
            (''inputSchema'', YDict
               [(''type'', YStr ''object''),
                (''properties'', YDict [(''path'', YDict [(''type'', YStr ''string'')])])]),
            (''routing'', YDict
               [(''type'', YStr ''subprocess''),
                (''config'', YDict [(''command'', YStr ''cat''), (''args'', strs [''{path}''])])]),
            (''hidden'', YBool True)]"

definition read_file_manifest :: yaml where
  "read_file_manifest = YDict [(''tools'', YList [read_file_tool])]"

definition legacy_file :: yaml_file where
  "legacy_file = \<lparr>yf_path = ''caps/file_ops.yaml'', yf_stem = ''file_ops'',
                   yf_load = Loaded read_file_manifest, yf_content_error = [],
                   yf_mkdir_error = None, yf_write_error = None\<rparr>"

definition enhanced_file :: yaml_file where
  "enhanced_file = \<lparr>yf_path = ''caps/done.yaml'', yf_stem = ''done'',
                     yf_load = Loaded (YDict [(''metadata'', YDict [(''classification'', YDict [])])]),
                     yf_content_error = [], yf_mkdir_error = None, yf_write_error = None\<rparr>"

definition broken_file :: yaml_file where
  "broken_file = \<lparr>yf_path = ''caps/broken.yaml'', yf_stem = ''broken'',
                   yf_load = LoadFails ''mapping values are not allowed here'',
                   yf_content_error = [], yf_mkdir_error = None, yf_write_error = None\<rparr>"

definition untyped_file :: yaml_file where
  \<comment> \<open>a document that is a list, on which \<^verbatim>\<open>legacy_content.get\<close> raises\<close>
  "untyped_file = \<lparr>yf_path = ''caps/list.yaml'', yf_stem = ''list'',
                    yf_load = Loaded (YList [read_file_tool]),
                    yf_content_error = [CHR 0x27] @ ''list'' @ [CHR 0x27]
                       @ '' object has no attribute '' @ [CHR 0x27] @ ''get'' @ [CHR 0x27],
                    yf_mkdir_error = None, yf_write_error = None\<rparr>"

definition no_output_root :: output_root where
  \<comment> \<open>a run without \<^verbatim>\<open>output_dir\<close>: the files are rewritten in place\<close>
  "no_output_root = \<lparr>output_dir = None, output_exists = False, output_mkdir_error = None\<rparr>"

definition blocked_output_root :: output_root where
  \<comment> \<open>an output root below a path that is a file\<close>
  "blocked_output_root =
     \<lparr>output_dir = Some ''notes.txt/out'', output_exists = False,
      output_mkdir_error = Some ''[Errno 20] Not a directory''\<rparr>"

definition sections_only_manifest :: yaml where
  \<comment> \<open>no metadata, a first tool with three of the five enhanced sections\<close>
  "sections_only_manifest =
     YDict [(''tools'', YList
        [YDict [(''name'', YStr ''t''), (''core'', YDict []), (''execution'', YDict []),
                (''discovery'', YDict [])]])]"

definition marker_only_manifest :: yaml where
  \<comment> \<open>a legacy manifest whose metadata name mentions the protocol tag\<close>
  "marker_only_manifest =
     YDict [(''metadata'', YDict [(''name'', YStr ''Tools for MCP 2025-06-18'')]),
            (''tools'', YList [read_file_tool])]"

definition with_security_level ::
  "string \<Rightarrow> (string \<times> yaml) list \<Rightarrow> (string \<times> yaml) list \<Rightarrow> (string \<times> yaml) list \<Rightarrow> yaml"
  where
  \<comment> \<open>the document \<open>c\<close> with metadata \<open>m\<close>, whose classification is \<open>cl\<close> with
      \<open>security_level\<close> set to \<open>lvl\<close>\<close>
  "with_security_level lvl c m cl =
     YDict (dict_set ''metadata''
       (YDict (dict_set ''classification''
          (YDict (dict_set ''security_level'' (YStr lvl) cl)) m)) c)"

definition small_metadata :: "(string \<times> yaml) list" where
  "small_metadata =
     [(''name'', YStr ''Enhanced tools''), (''description'', YStr ''Some tools''),
      (''version'', YStr ''3.0.0''), (''author'', YStr ''A. Author''),
      (''mcp_capabilities'', YDict [(''version'', YStr ''2025-06-18'')])]"

definition small_tools :: "(string \<times> yaml) list" where
  "small_tools =
     [(''tools'', YList
        [YDict [(''name'', YStr ''enhanced_ping''),
                (''core'', YDict [(''description'', YStr ''Pings a host''),
                                  (''input_schema'', YDict [(''type'', YStr ''object'')])]),
                (''execution'', YDict [(''routing'', YDict [(''type'', YStr ''enhanced_subprocess'')])]),
                (''discovery'', YDict []),
                (''monitoring'', YDict []),
                (''access'', YDict [])]])]"

definition invalid_security_level_message :: string where
  "invalid_security_level_message =
     ''Invalid security_level: unsafe. Must be one of: ''
     @ ''safe, restricted, mixed, privileged, dangerous, blocked''"

section \<open>Round trip\<close>

definition legacy_tool_ok :: "yaml \<Rightarrow> bool" where
  \<comment> \<open>a legacy tool that carries name, description, inputSchema and routing.type: the four
      tests of \<^verbatim>\<open>_validate_legacy_format\<close> find nothing missing\<close>
  "legacy_tool_ok tool =
     (case tool of
        YDict t \<Rightarrow>
          truthy (dict_get t ''name'' YNull)
          \<and> truthy (dict_get t ''description'' YNull)
          \<and> truthy (dict_get t ''inputSchema'' YNull)
          \<and> (case dict_get t ''routing'' (YDict []) of
                YDict routing \<Rightarrow> truthy (dict_get routing ''type'' YNull)
              | _ \<Rightarrow> False)
      | _ \<Rightarrow> False)"

definition well_formed_legacy :: "yaml \<Rightarrow> bool" where
  \<comment> \<open>a legacy manifest with a non-empty tools list of such tools\<close>
  "well_formed_legacy content =
     (case content of
        YDict c \<Rightarrow>
          (case dict_get c ''tools'' (YList []) of
             YList tools \<Rightarrow> tools \<noteq> [] \<and> list_all legacy_tool_ok tools
           | _ \<Rightarrow> False)
      | _ \<Rightarrow> False)"

definition legacy_author_ok :: "yaml \<Rightarrow> bool" where
  \<comment> \<open>the legacy metadata gives no author, or an author that is not empty\<close>
  "legacy_author_ok content =
     (case content of
        YDict c \<Rightarrow>
          (case dict_get c ''metadata'' (YDict []) of
             YDict metadata \<Rightarrow>
               truthy (dict_get metadata ''author'' (YStr ''MCP 2025 Enhanced Team''))
           | _ \<Rightarrow> False)
      | _ \<Rightarrow> False)"

definition roundtrip_errors ::
  "bool \<Rightarrow> string \<Rightarrow> yaml \<Rightarrow> string \<Rightarrow> ValidationResult list option" where
  \<comment> \<open>the ERROR diagnostics of validating, as the file \<open>fp\<close>, what migration makes of the
      legacy document; \<open>None\<close> when migration or validation raises\<close>
  "roundtrip_errors strict fp legacy_content file_stem = do {
     enhanced_content \<leftarrow> migrate_yaml_content legacy_content file_stem;
     v \<leftarrow> validate_file (new_validator strict) fp (Parsed enhanced_content);
     Some (errors_of (results v))
   }"

definition empty_author_manifest :: yaml where
  "empty_author_manifest =
     YDict [(''metadata'', YDict [(''name'', YStr ''File tools''), (''author'', YStr [])]),
            (''tools'', YList [read_file_tool])]"

definition null_metadata_manifest :: yaml where
  \<comment> \<open>a \<^verbatim>\<open>metadata:\<close> key without a value\<close>
  "null_metadata_manifest = YDict [(''metadata'', YNull), (''tools'', YList [read_file_tool])]"

definition read_file_store :: store where
  \<comment> \<open>the input schema of \<open>read_file_tool\<close>: the schema at address 0, its properties at 1,
      the configuration of \<open>path\<close> at 2\<close>
  "read_file_store =
     [ODict [(''type'', VStr ''object''), (''properties'', VRef 1)],
      ODict [(''path'', VRef 2)],
      ODict [(''type'', VStr ''string'')]]"

definition read_file_schema :: yaml where
  "read_file_schema =
     YDict [(''type'', YStr ''object''),
            (''properties'', YDict [(''path'', YDict [(''type'', YStr ''string'')])])]"

definition read_file_store_after :: store where
  \<comment> \<open>the store after enhancing the schema at address 0: the copy at 3, the validation
      hints at 4, referred to from the legacy configuration at 2\<close>
  "read_file_store_after =
     [ODict [(''type'', VStr ''object''), (''properties'', VRef 1)],
      ODict [(''path'', VRef 2)],
      ODict [(''type'', VStr ''string''), (''validation'', VRef 4)],
      ODict [(''type'', VStr ''object''), (''properties'', VRef 1),
             (''additionalProperties'', VBool False)],
      ODict [(''path_traversal_protection'', VBool True), (''security_scan'', VBool True)]]"

section \<open>Claims\<close>

text \<open>
  C4.  Monotonic permissions: along the chain safe, restricted, privileged, dangerous the
  permission list generated for each classification contains every permission of the
  classification before it; safe gets the base execute permission only, and each later
  classification adds one permission the previous one does not have.
\<close>

theorem C4_permissions_monotonic:
  "determine_permissions ''safe'' = [''tool:execute'']
   \<and> set (determine_permissions ''safe'') \<subseteq> set (determine_permissions ''restricted'')
   \<and> set (determine_permissions ''restricted'') \<subseteq> set (determine_permissions ''privileged'')
   \<and> set (determine_permissions ''privileged'') \<subseteq> set (determine_permissions ''dangerous'')
   \<and> ''security:validated'' \<in> set (determine_permissions ''restricted'')
       - set (determine_permissions ''safe'')
   \<and> ''admin:elevated'' \<in> set (determine_permissions ''privileged'')
       - set (determine_permissions ''restricted'')
   \<and> ''approval:required'' \<in> set (determine_permissions ''dangerous'')
       - set (determine_permissions ''privileged'')"
  by (simp add: determine_permissions_def)

text \<open>
  C2.  The classifier tests the security-level buckets in the order privileged
  (admin, system, root, security), restricted (file, database, network), dangerous
  (delete, remove, execute), and falls through to safe.  The identifier admin_tools is
  privileged.  The identifier delete_file contains the trigger file of the restricted
  bucket, which is tested before the dangerous bucket, so it is restricted.
\<close>

theorem C2_security_level_priority:
  assumes "classify_capability file_stem metadata = Some (security_level, rest)"
  shows "(any_word_in [''admin'', ''system'', ''root'', ''security''] (lower file_stem)
            \<longrightarrow> security_level = ''privileged'')
       \<and> (\<not> any_word_in [''admin'', ''system'', ''root'', ''security''] (lower file_stem)
            \<and> any_word_in [''file'', ''database'', ''network''] (lower file_stem)
            \<longrightarrow> security_level = ''restricted'')
       \<and> (\<not> any_word_in [''admin'', ''system'', ''root'', ''security''] (lower file_stem)
            \<and> \<not> any_word_in [''file'', ''database'', ''network''] (lower file_stem)
            \<and> any_word_in [''delete'', ''remove'', ''execute''] (lower file_stem)
            \<longrightarrow> security_level = ''dangerous'')
       \<and> (\<not> any_word_in [''admin'', ''system'', ''root'', ''security''] (lower file_stem)
            \<and> \<not> any_word_in [''file'', ''database'', ''network''] (lower file_stem)
            \<and> \<not> any_word_in [''delete'', ''remove'', ''execute''] (lower file_stem)
            \<longrightarrow> security_level = ''safe'')
       \<and> map_option fst (classify_capability ''admin_tools'' (YDict [])) = Some ''privileged''
       \<and> map_option fst (classify_capability ''delete_file'' (YDict [])) = Some ''restricted''"
proof -
  have sl: "security_level = security_level_of file_stem"
    using assms by (auto simp: classify_capability_def split: bind_splits)
  have ex1: "map_option fst (classify_capability ''admin_tools'' (YDict [])) = Some ''privileged''"
    by code_simp
  have ex2: "map_option fst (classify_capability ''delete_file'' (YDict [])) = Some ''restricted''"
    by code_simp
  show ?thesis
    unfolding sl using ex1 ex2 by (simp add: security_level_of_def)
qed

theorem C2_security_level_priority_witness:
  "classify_capability ''Remove_Admin_File'' (YDict [])
     = Some (''privileged'', ''simple'', ''filesystem'', [''file_management'', ''data_processing''])
   \<and> any_word_in [''admin'', ''system'', ''root'', ''security''] (lower ''Remove_Admin_File'')
   \<and> any_word_in [''file'', ''database'', ''network''] (lower ''Remove_Admin_File'')
   \<and> any_word_in [''delete'', ''remove'', ''execute''] (lower ''Remove_Admin_File'')"
proof -
  have h: "classify_capability ''Remove_Admin_File'' (YDict [])
     = Some (''privileged'', ''simple'', ''filesystem'', [''file_management'', ''data_processing''])"
    by code_simp
  have a: "any_word_in [''admin'', ''system'', ''root'', ''security''] (lower ''Remove_Admin_File'')"
    by code_simp
  have b: "any_word_in [''file'', ''database'', ''network''] (lower ''Remove_Admin_File'')"
    by code_simp
  have c: "any_word_in [''delete'', ''remove'', ''execute''] (lower ''Remove_Admin_File'')"
    by code_simp
  from C2_security_level_priority [OF h] a b c h show ?thesis by blast
qed

text \<open>
  C2, as stated, asks for delete_file to be classified dangerous; the classifier returns
  restricted for it.
\<close>

theorem C2_delete_file_counterexample:
  "map_option fst (classify_capability ''delete_file'' (YDict [])) = Some ''restricted''
   \<and> map_option fst (classify_capability ''delete_file'' (YDict [])) \<noteq> Some ''dangerous''"
  by code_simp

text \<open>The two cache fields of the performance section, for any tool name.\<close>

lemma cache_fields:
  "py_get (create_performance_config tool_name) ''cache_results'' YNull
     = Some (YBool (py_startswith tool_name ''read'' \<or> py_startswith tool_name ''get''))
   \<and> py_get (create_performance_config tool_name) ''cache_ttl_seconds'' YNull
     = Some (YInt (if py_startswith tool_name ''read'' then 300 else 0))"
  by (simp add: create_performance_config_def Let_def dict_get_def)

text \<open>
  C7.  For the tool name get_user, which starts with get and not with read, the generated
  performance section has \<open>cache_results = True\<close> but \<open>cache_ttl_seconds = 0\<close>: the
  time-to-live tests the read prefix only.
\<close>

theorem C7_get_prefix_ttl:
  "create_performance_config ''get_user''
     = YDict [(''estimated_duration'', YDict
                 [(''simple_operation'', YInt 5), (''complex_operation'', YInt 30)]),
              (''complexity'', YStr ''moderate''),
              (''supports_cancellation'', YBool True),
              (''supports_progress'', YBool False),
              (''cache_results'', YBool True),
              (''cache_ttl_seconds'', YInt 0)]"
  by code_simp

text \<open>The validator never reads its \<open>strict_mode\<close> field.\<close>

lemma validate_file_strict:
  "validate_file (v\<lparr>strict_mode := b\<rparr>) fp inp
     = map_option (\<lambda>w. w\<lparr>strict_mode := b\<rparr>) (validate_file v fp inp)"
  by (cases inp) (auto simp: validate_file_def add_results_def Let_def split: bind_splits)

lemma validate_files_strict:
  "validate_files (v\<lparr>strict_mode := b\<rparr>) fs
     = map_option (\<lambda>w. w\<lparr>strict_mode := b\<rparr>) (validate_files v fs)"
proof (induction fs arbitrary: v)
  case Nil
  show ?case by simp
next
  case (Cons f fs)
  show ?case
    by (cases "validate_file v (fst f) (snd f)") (simp_all add: validate_file_strict Cons.IH)
qed

lemma validate_directory_strict:
  "validate_directory (v\<lparr>strict_mode := b\<rparr>) p ex fs
     = map_option (\<lambda>w. w\<lparr>strict_mode := b\<rparr>) (validate_directory v p ex fs)"
proof -
  have a: "add_results (v\<lparr>strict_mode := b\<rparr>) rs = (add_results v rs)\<lparr>strict_mode := b\<rparr>" for rs
    by (simp add: add_results_def)
  show ?thesis
    by (simp add: validate_directory_def a validate_files_strict)
qed

lemma new_validator_strict: "new_validator b = (new_validator False)\<lparr>strict_mode := b\<rparr>"
  by (simp add: new_validator_def)

lemma print_results_strict: "print_results (w\<lparr>strict_mode := b\<rparr>) = print_results w"
  by (simp add: print_results_def)

text \<open>
  C8.  \<open>strict_mode\<close> has no observable effect: with the flag set or not, validating a
  file or a directory gives the same diagnostics and the same verdict, and the program
  ends with the same exit status.
\<close>

theorem C8_strict_mode_no_effect:
  "validator_main True t = validator_main False t
   \<and> map_option results (validate_file (new_validator True) fp inp)
       = map_option results (validate_file (new_validator False) fp inp)
   \<and> map_option print_results (validate_file (new_validator True) fp inp)
       = map_option print_results (validate_file (new_validator False) fp inp)
   \<and> map_option results (validate_directory (new_validator True) dir ex fs)
       = map_option results (validate_directory (new_validator False) dir ex fs)
   \<and> map_option print_results (validate_directory (new_validator True) dir ex fs)
       = map_option print_results (validate_directory (new_validator False) dir ex fs)"
proof -
  have f: "validate_file (new_validator True) p i
      = map_option (\<lambda>w. w\<lparr>strict_mode := True\<rparr>) (validate_file (new_validator False) p i)" for p i
    using validate_file_strict [where v = "new_validator False" and b = True and fp = p and inp = i]
    by (simp add: new_validator_def)
  have d: "validate_directory (new_validator True) p e xs
      = map_option (\<lambda>w. w\<lparr>strict_mode := True\<rparr>) (validate_directory (new_validator False) p e xs)"
    for p e xs
    using validate_directory_strict [where v = "new_validator False" and b = True and p = p and ex = e and fs = xs]
    by (simp add: new_validator_def)
  have m: "validator_main True t = validator_main False t"
    by (cases t) (simp_all add: validator_main_def f d print_results_strict
        split: option.splits bind_splits)
  show ?thesis
    by (simp add: m f d option.map_comp comp_def print_results_strict)
qed

text \<open>
  Directory runs.  Every file ends in exactly one of three outcomes, and the counters of
  the run count them.
\<close>

lemma migrate_attempt_stats:
  "migrate_attempt stats f =
     (case migrate_attempt init_stats f of
        Inl e \<Rightarrow> Inl e
      | Inr s \<Rightarrow> Inr (stats\<lparr>files_processed := files_processed stats + 1,
                             files_migrated := files_migrated stats + 1\<rparr>))"
  by (simp add: migrate_attempt_def migrate_file_def split: file_load.splits option.splits)

lemma process_file_skipped:
  "outcome_of f = Skipped \<Longrightarrow>
     process_file stats f = stats\<lparr>files_skipped := files_skipped stats + 1\<rparr>"
  by (auto simp: outcome_of_def process_file_def split: if_splits sum.splits)

lemma process_file_migrated:
  "outcome_of f = Migrated \<Longrightarrow>
     process_file stats f = stats\<lparr>files_processed := files_processed stats + 1,
                                   files_migrated := files_migrated stats + 1\<rparr>"
  using migrate_attempt_stats [of stats f]
  by (auto simp: outcome_of_def process_file_def split: if_splits sum.splits)

lemma process_file_failed:
  "outcome_of f = Failed \<Longrightarrow>
     \<exists>e. migrate_attempt stats f = Inl e
       \<and> process_file stats f
           = stats\<lparr>errors := errors stats @ [''Failed to migrate '' @ yf_path f @ '': '' @ e]\<rparr>"
  using migrate_attempt_stats [of stats f]
  by (auto simp: outcome_of_def process_file_def split: if_splits sum.splits)

lemma run_counts:
  "files_skipped (foldl process_file stats fs) = files_skipped stats + count_outcome Skipped fs
   \<and> files_migrated (foldl process_file stats fs) = files_migrated stats + count_outcome Migrated fs
   \<and> files_processed (foldl process_file stats fs)
       = files_processed stats + count_outcome Migrated fs
   \<and> length (errors (foldl process_file stats fs))
       = length (errors stats) + count_outcome Failed fs"
proof (induction fs arbitrary: stats)
  case Nil
  show ?case by (simp add: count_outcome_def)
next
  case (Cons f fs)
  show ?case
  proof (cases "outcome_of f")
    case Skipped
    then show ?thesis
      using Cons.IH [of "process_file stats f"]
      by (simp add: process_file_skipped count_outcome_def)
  next
    case Migrated
    then show ?thesis
      using Cons.IH [of "process_file stats f"]
      by (simp add: process_file_migrated count_outcome_def)
  next
    case Failed
    from process_file_failed [OF Failed, of stats] obtain e where
      "process_file stats f
         = stats\<lparr>errors := errors stats @ [''Failed to migrate '' @ yf_path f @ '': '' @ e]\<rparr>"
      by blast
    then show ?thesis
      using Cons.IH [of "process_file stats f"] Failed
      by (simp add: count_outcome_def)
  qed
qed

lemma count_outcome_total:
  "count_outcome Skipped fs + count_outcome Migrated fs + count_outcome Failed fs = length fs"
proof (induction fs)
  case Nil
  show ?case by (simp add: count_outcome_def)
next
  case (Cons f fs)
  then show ?case by (cases "outcome_of f") (simp_all add: count_outcome_def)
qed

text \<open>
  C9.  Batch error isolation: when the attempt to migrate a file fails, the round of the
  loop appends one message to the errors list and the run goes on with the next file; a
  run that gets past the two steps before the loop returns its statistics, with one
  error message per failed file and every file skipped, migrated or failed.  The run
  raises, before any file is touched, exactly when the input directory does not exist or
  the output root is given, does not exist yet and cannot be created.
\<close>

theorem C9_batch_error_isolation:
  "(\<not> is_already_enhanced (yf_load f) \<and> migrate_attempt stats f = Inl e \<longrightarrow>
      process_file stats f
        = stats\<lparr>errors := errors stats @ [''Failed to migrate '' @ yf_path f @ '': '' @ e]\<rparr>)
   \<and> migrate_directory stats input_dir exists out (f # fs)
       = migrate_directory (process_file stats f) input_dir exists out fs
   \<and> (exists \<and> create_output_root out = None \<longrightarrow>
        (\<exists>stats'. migrate_directory stats input_dir exists out yaml_files = Inr stats'
         \<and> length (errors stats') = length (errors stats) + count_outcome Failed yaml_files
         \<and> files_skipped stats' = files_skipped stats + count_outcome Skipped yaml_files
         \<and> files_migrated stats' = files_migrated stats + count_outcome Migrated yaml_files
         \<and> count_outcome Skipped yaml_files + count_outcome Migrated yaml_files
             + count_outcome Failed yaml_files = length yaml_files))
   \<and> migrate_directory stats input_dir False out yaml_files
       = Inl (FileNotFoundError (''Input directory does not exist: '' @ input_dir))
   \<and> (exists \<and> create_output_root out = Some err \<longrightarrow>
        migrate_directory stats input_dir exists out yaml_files = Inl (OSError err))
   \<and> ((\<exists>err. migrate_directory stats input_dir exists out yaml_files = Inl err)
        \<longleftrightarrow> \<not> exists \<or> create_output_root out \<noteq> None)"
proof -
  have a: "\<not> is_already_enhanced (yf_load f) \<and> migrate_attempt stats f = Inl e \<longrightarrow>
      process_file stats f
        = stats\<lparr>errors := errors stats @ [''Failed to migrate '' @ yf_path f @ '': '' @ e]\<rparr>"
    by (simp add: process_file_def)
  have b: "migrate_directory stats input_dir exists out (f # fs)
       = migrate_directory (process_file stats f) input_dir exists out fs"
    by (simp add: migrate_directory_def split: option.splits)
  have c: "exists \<and> create_output_root out = None \<longrightarrow>
        (\<exists>stats'. migrate_directory stats input_dir exists out yaml_files = Inr stats'
         \<and> length (errors stats') = length (errors stats) + count_outcome Failed yaml_files
         \<and> files_skipped stats' = files_skipped stats + count_outcome Skipped yaml_files
         \<and> files_migrated stats' = files_migrated stats + count_outcome Migrated yaml_files
         \<and> count_outcome Skipped yaml_files + count_outcome Migrated yaml_files
             + count_outcome Failed yaml_files = length yaml_files)"
    using run_counts [of stats yaml_files] count_outcome_total [of yaml_files]
    by (simp add: migrate_directory_def)
  have d: "migrate_directory stats input_dir False out yaml_files
       = Inl (FileNotFoundError (''Input directory does not exist: '' @ input_dir))"
    by (simp add: migrate_directory_def)
  have e: "exists \<and> create_output_root out = Some err \<longrightarrow>
        migrate_directory stats input_dir exists out yaml_files = Inl (OSError err)"
    by (simp add: migrate_directory_def)
  have g: "(\<exists>err. migrate_directory stats input_dir exists out yaml_files = Inl err)
        \<longleftrightarrow> \<not> exists \<or> create_output_root out \<noteq> None"
    by (cases "create_output_root out") (simp_all add: migrate_directory_def)
  from a b c d e g show ?thesis by blast
qed

theorem C9_batch_error_isolation_witness:
  "\<not> is_already_enhanced (yf_load untyped_file)
   \<and> migrate_attempt init_stats untyped_file = Inl (yf_content_error untyped_file)
   \<and> process_file init_stats untyped_file
       = init_stats\<lparr>errors :=
           [''Failed to migrate caps/list.yaml: '' @ yf_content_error untyped_file]\<rparr>
   \<and> create_output_root no_output_root = None
   \<and> migrate_directory init_stats ''caps'' True no_output_root
        [broken_file, legacy_file, enhanced_file]
       = Inr \<lparr>files_processed = 1, files_migrated = 1, files_skipped = 1,
              errors = [''Failed to migrate caps/broken.yaml: mapping values are not allowed here'']\<rparr>
   \<and> create_output_root blocked_output_root = Some ''[Errno 20] Not a directory''
   \<and> migrate_directory init_stats ''caps'' True blocked_output_root
        [broken_file, legacy_file, enhanced_file]
       = Inl (OSError ''[Errno 20] Not a directory'')"
proof -
  have h1: "\<not> is_already_enhanced (yf_load untyped_file)"
    by code_simp
  have h2: "migrate_attempt init_stats untyped_file = Inl (yf_content_error untyped_file)"
    by code_simp
  have p: "yf_path untyped_file = ''caps/list.yaml''"
    by (simp add: untyped_file_def)
  have e: "errors init_stats = []"
    by (simp add: init_stats_def)
  have o1: "create_output_root no_output_root = None"
    by code_simp
  have o2: "create_output_root blocked_output_root = Some ''[Errno 20] Not a directory''"
    by code_simp
  have r: "migrate_directory init_stats ''caps'' True no_output_root
        [broken_file, legacy_file, enhanced_file]
       = Inr \<lparr>files_processed = 1, files_migrated = 1, files_skipped = 1,
              errors = [''Failed to migrate caps/broken.yaml: mapping values are not allowed here'']\<rparr>"
    by code_simp
  note t1 = C9_batch_error_isolation [where f = untyped_file and stats = init_stats
      and e = "yf_content_error untyped_file" and exists = True and out = blocked_output_root
      and err = "''[Errno 20] Not a directory''" and input_dir = "''caps''"
      and yaml_files = "[broken_file, legacy_file, enhanced_file]"]
  from t1 h1 h2
  have "process_file init_stats untyped_file
      = init_stats\<lparr>errors := errors init_stats
          @ [''Failed to migrate '' @ yf_path untyped_file @ '': ''
             @ yf_content_error untyped_file]\<rparr>"
    by blast
  then have c1: "process_file init_stats untyped_file
       = init_stats\<lparr>errors :=
           [''Failed to migrate caps/list.yaml: '' @ yf_content_error untyped_file]\<rparr>"
    by (simp add: p e)
  from t1 o2
  have c2: "migrate_directory init_stats ''caps'' True blocked_output_root
        [broken_file, legacy_file, enhanced_file]
       = Inl (OSError ''[Errno 20] Not a directory'')"
    by blast
  from h1 h2 c1 o1 r o2 c2 show ?thesis by blast
qed

text \<open>
  C9, as stated, lets only a missing input root abort the run.  Creating the output root
  stands before the loop and outside the \<^verbatim>\<open>try\<close>: with the input root present and an
  output root that cannot be created, the run raises before any file is touched.
\<close>

theorem C9_output_root_counterexample:
  "migrate_directory init_stats ''caps'' True blocked_output_root [legacy_file]
     = Inl (OSError ''[Errno 20] Not a directory'')"
  by code_simp

text \<open>
  C10.  In every directory run started from fresh statistics, after any number of files,
  \<open>files_processed\<close> equals \<open>files_migrated\<close>: every round of the loop keeps them equal,
  a skipped file increments \<open>files_skipped\<close> only, a failed file (whether creating the
  directory of its output or \<^verbatim>\<open>migrate_file\<close> itself fails) leaves the three counters
  alone and adds one message to the errors list, and a migrated file increments
  \<open>files_processed\<close> and \<open>files_migrated\<close> together.
\<close>

theorem C10_processed_equals_migrated:
  "(migrate_directory init_stats input_dir exists out (take n yaml_files) = Inr s
      \<longrightarrow> files_processed s = files_migrated s)
   \<and> (files_processed stats = files_migrated stats
      \<longrightarrow> files_processed (process_file stats f) = files_migrated (process_file stats f))
   \<and> (is_already_enhanced (yf_load f)
      \<longrightarrow> process_file stats f = stats\<lparr>files_skipped := files_skipped stats + 1\<rparr>)
   \<and> (\<not> is_already_enhanced (yf_load f) \<and> migrate_attempt stats f = Inl e
      \<longrightarrow> files_processed (process_file stats f) = files_processed stats
        \<and> files_migrated (process_file stats f) = files_migrated stats
        \<and> files_skipped (process_file stats f) = files_skipped stats
        \<and> errors (process_file stats f)
            = errors stats @ [''Failed to migrate '' @ yf_path f @ '': '' @ e])
   \<and> (\<not> is_already_enhanced (yf_load f) \<and> migrate_file stats f = Inl e
      \<longrightarrow> files_processed (process_file stats f) = files_processed stats
        \<and> files_migrated (process_file stats f) = files_migrated stats
        \<and> files_skipped (process_file stats f) = files_skipped stats
        \<and> length (errors (process_file stats f)) = length (errors stats) + 1
        \<and> (yf_mkdir_error f = None
             \<longrightarrow> errors (process_file stats f)
                   = errors stats @ [''Failed to migrate '' @ yf_path f @ '': '' @ e]))
   \<and> (migrate_file stats f = Inr stats'
      \<longrightarrow> stats' = stats\<lparr>files_processed := files_processed stats + 1,
                           files_migrated := files_migrated stats + 1\<rparr>)
   \<and> (migrate_attempt stats f = Inr stats'
      \<longrightarrow> stats' = stats\<lparr>files_processed := files_processed stats + 1,
                           files_migrated := files_migrated stats + 1\<rparr>)"
proof -
  have a: "migrate_directory init_stats input_dir exists out (take n yaml_files) = Inr s
      \<longrightarrow> files_processed s = files_migrated s"
    using run_counts [of init_stats "take n yaml_files"]
    by (auto simp: migrate_directory_def init_stats_def split: if_splits option.splits)
  have m: "migrate_file stats f = Inr stats'
      \<longrightarrow> stats' = stats\<lparr>files_processed := files_processed stats + 1,
                           files_migrated := files_migrated stats + 1\<rparr>"
    by (auto simp: migrate_file_def split: file_load.splits option.splits)
  have m': "migrate_attempt stats f = Inr stats'
      \<longrightarrow> stats' = stats\<lparr>files_processed := files_processed stats + 1,
                           files_migrated := files_migrated stats + 1\<rparr>"
    by (auto simp: migrate_attempt_def migrate_file_def split: file_load.splits option.splits)
  have k: "\<not> is_already_enhanced (yf_load f) \<and> migrate_file stats f = Inl e
      \<longrightarrow> files_processed (process_file stats f) = files_processed stats
        \<and> files_migrated (process_file stats f) = files_migrated stats
        \<and> files_skipped (process_file stats f) = files_skipped stats
        \<and> length (errors (process_file stats f)) = length (errors stats) + 1
        \<and> (yf_mkdir_error f = None
             \<longrightarrow> errors (process_file stats f)
                   = errors stats @ [''Failed to migrate '' @ yf_path f @ '': '' @ e])"
    by (auto simp: process_file_def migrate_attempt_def split: option.splits)
  have b: "files_processed stats = files_migrated stats
      \<longrightarrow> files_processed (process_file stats f) = files_migrated (process_file stats f)"
    by (auto simp: process_file_def migrate_attempt_def migrate_file_def
        split: sum.splits file_load.splits option.splits)
  have c: "is_already_enhanced (yf_load f)
      \<longrightarrow> process_file stats f = stats\<lparr>files_skipped := files_skipped stats + 1\<rparr>"
    by (simp add: process_file_def)
  have d: "\<not> is_already_enhanced (yf_load f) \<and> migrate_attempt stats f = Inl e
      \<longrightarrow> files_processed (process_file stats f) = files_processed stats
        \<and> files_migrated (process_file stats f) = files_migrated stats
        \<and> files_skipped (process_file stats f) = files_skipped stats
        \<and> errors (process_file stats f)
            = errors stats @ [''Failed to migrate '' @ yf_path f @ '': '' @ e]"
    by (simp add: process_file_def)
  from a b c d k m m' show ?thesis by blast
qed


theorem C10_processed_equals_migrated_witness:
  "migrate_directory init_stats ''caps'' True no_output_root
       (take 2 [legacy_file, broken_file, enhanced_file])
     = Inr \<lparr>files_processed = 1, files_migrated = 1, files_skipped = 0,
            errors = [''Failed to migrate caps/broken.yaml: mapping values are not allowed here'']\<rparr>
   \<and> files_processed \<lparr>files_processed = 1, files_migrated = 1, files_skipped = 0,
            errors = [''Failed to migrate caps/broken.yaml: mapping values are not allowed here'']\<rparr>
       = files_migrated \<lparr>files_processed = 1, files_migrated = 1, files_skipped = 0,
            errors = [''Failed to migrate caps/broken.yaml: mapping values are not allowed here'']\<rparr>
   \<and> is_already_enhanced (yf_load enhanced_file)
   \<and> process_file init_stats enhanced_file = init_stats\<lparr>files_skipped := 1\<rparr>
   \<and> \<not> is_already_enhanced (yf_load broken_file)
   \<and> migrate_file init_stats broken_file = Inl ''mapping values are not allowed here''
   \<and> migrate_attempt init_stats broken_file = Inl ''mapping values are not allowed here''
   \<and> yf_mkdir_error broken_file = None
   \<and> files_processed (process_file init_stats broken_file) = 0
   \<and> files_migrated (process_file init_stats broken_file) = 0
   \<and> files_skipped (process_file init_stats broken_file) = 0
   \<and> errors (process_file init_stats broken_file)
       = [''Failed to migrate caps/broken.yaml: mapping values are not allowed here'']
   \<and> migrate_file init_stats legacy_file
       = Inr (init_stats\<lparr>files_processed := 1, files_migrated := 1\<rparr>)
   \<and> migrate_attempt init_stats legacy_file
       = Inr (init_stats\<lparr>files_processed := 1, files_migrated := 1\<rparr>)"
proof -
  have r: "migrate_directory init_stats ''caps'' True no_output_root
       (take 2 [legacy_file, broken_file, enhanced_file])
     = Inr \<lparr>files_processed = 1, files_migrated = 1, files_skipped = 0,
            errors = [''Failed to migrate caps/broken.yaml: mapping values are not allowed here'']\<rparr>"
    by code_simp
  have h1: "is_already_enhanced (yf_load enhanced_file)"
    by code_simp
  have h2: "\<not> is_already_enhanced (yf_load broken_file)"
    by code_simp
  have h3: "migrate_file init_stats broken_file = Inl ''mapping values are not allowed here''"
    by code_simp
  have h3': "migrate_attempt init_stats broken_file = Inl ''mapping values are not allowed here''"
    by code_simp
  have h4: "migrate_file init_stats legacy_file
       = Inr (init_stats\<lparr>files_processed := 1, files_migrated := 1\<rparr>)"
    by code_simp
  have h4': "migrate_attempt init_stats legacy_file
       = Inr (init_stats\<lparr>files_processed := 1, files_migrated := 1\<rparr>)"
    by code_simp
  have h5: "yf_mkdir_error broken_file = None"
    by (simp add: broken_file_def)
  have p: "yf_path broken_file = ''caps/broken.yaml''"
    by (simp add: broken_file_def)
  note t1 = C10_processed_equals_migrated [where input_dir = "''caps''" and n = 2
      and exists = True and out = no_output_root
      and yaml_files = "[legacy_file, broken_file, enhanced_file]"
      and s = "\<lparr>files_processed = 1, files_migrated = 1, files_skipped = 0,
            errors = [''Failed to migrate caps/broken.yaml: mapping values are not allowed here'']\<rparr>"
      and stats = init_stats and f = enhanced_file]
  note t2 = C10_processed_equals_migrated [where stats = init_stats and f = broken_file
      and e = "''mapping values are not allowed here''"]
  have z: "files_processed init_stats = 0" "files_migrated init_stats = 0"
    "files_skipped init_stats = 0" "errors init_stats = []"
    by (simp_all add: init_stats_def)
  from t1 r have c1: "files_processed \<lparr>files_processed = 1, files_migrated = 1, files_skipped = 0,
            errors = [''Failed to migrate caps/broken.yaml: mapping values are not allowed here'']\<rparr>
       = files_migrated \<lparr>files_processed = 1, files_migrated = 1, files_skipped = 0,
            errors = [''Failed to migrate caps/broken.yaml: mapping values are not allowed here'']\<rparr>"
    by blast
  from t1 h1 have c2: "process_file init_stats enhanced_file = init_stats\<lparr>files_skipped := 1\<rparr>"
    by (simp add: z)
  from t2 h2 h3' have c3: "files_processed (process_file init_stats broken_file) = 0
     \<and> files_migrated (process_file init_stats broken_file) = 0
     \<and> files_skipped (process_file init_stats broken_file) = 0"
    by (simp add: z)
  from t2 h2 h3 h5 have c4: "errors (process_file init_stats broken_file)
       = [''Failed to migrate caps/broken.yaml: mapping values are not allowed here'']"
    by (simp add: z p)
  from r c1 h1 c2 h2 h3 h3' h5 c3 c4 h4 h4' show ?thesis by blast
qed

text \<open>
  C3.  The two pipelines detect the enhanced format with different functions that share
  the metadata rule only.  For a document whose metadata is a mapping: the orchestrator's
  check holds exactly when the metadata has one of the keys classification,
  discovery_metadata, mcp_capabilities or the text MCP 2025-06-18 occurs in the rendered
  document; the validator's detector holds exactly when the metadata has one of the three
  keys or the first tool has at least three of the five enhanced sections.  So both hold
  when the metadata has one of the three keys.
\<close>

theorem C3_shared_metadata_rule:
  assumes "dict_get c ''metadata'' (YDict []) = YDict m"
  shows "is_already_enhanced (Loaded (YDict c))
           = (has_key ''classification'' m \<or> has_key ''discovery_metadata'' m
              \<or> has_key ''mcp_capabilities'' m
              \<or> py_contains ''MCP 2025-06-18'' (py_repr (YDict c)))
       \<and> is_enhanced_format (YDict c)
           = (has_key ''classification'' m \<or> has_key ''discovery_metadata'' m
              \<or> has_key ''mcp_capabilities'' m
              \<or> (case dict_get c ''tools'' (YList []) of
                    YList (YDict first_tool # rest) \<Rightarrow> 3 \<le> enhanced_sections first_tool
                  | _ \<Rightarrow> False))
       \<and> (has_key ''classification'' m \<or> has_key ''discovery_metadata'' m
              \<or> has_key ''mcp_capabilities'' m
            \<longrightarrow> is_already_enhanced (Loaded (YDict c)) \<and> is_enhanced_format (YDict c))"
proof -
  have a: "is_already_enhanced (Loaded (YDict c))
           = (has_key ''classification'' m \<or> has_key ''discovery_metadata'' m
              \<or> has_key ''mcp_capabilities'' m
              \<or> py_contains ''MCP 2025-06-18'' (py_repr (YDict c)))"
    using assms by (simp add: is_already_enhanced_def already_enhanced_check_def)
  have b: "is_enhanced_format (YDict c)
           = (has_key ''classification'' m \<or> has_key ''discovery_metadata'' m
              \<or> has_key ''mcp_capabilities'' m
              \<or> (case dict_get c ''tools'' (YList []) of
                    YList (YDict first_tool # rest) \<Rightarrow> 3 \<le> enhanced_sections first_tool
                  | _ \<Rightarrow> False))"
    using assms by (simp add: is_enhanced_format_def)
  from a b show ?thesis by blast
qed

theorem C3_shared_metadata_rule_witness:
  "dict_get [(''metadata'', YDict [(''mcp_capabilities'', YDict [])])] ''metadata'' (YDict [])
     = YDict [(''mcp_capabilities'', YDict [])]
   \<and> has_key ''mcp_capabilities'' [(''mcp_capabilities'', YDict [])]
   \<and> is_already_enhanced (Loaded (YDict [(''metadata'', YDict [(''mcp_capabilities'', YDict [])])]))
   \<and> is_enhanced_format (YDict [(''metadata'', YDict [(''mcp_capabilities'', YDict [])])])"
proof -
  have h: "dict_get [(''metadata'', YDict [(''mcp_capabilities'', YDict [])])] ''metadata'' (YDict [])
     = YDict [(''mcp_capabilities'', YDict [])]"
    by (simp add: dict_get_def)
  have k: "has_key ''mcp_capabilities'' [(''mcp_capabilities'', YDict [])]"
    by (simp add: has_key_def)
  from C3_shared_metadata_rule [OF h] k h show ?thesis by blast
qed

text \<open>
  C3, as stated, makes the two detectors one function.  They differ on a document without
  metadata whose first tool has three enhanced sections (enhanced for the validator only),
  and on a legacy document that mentions the protocol tag (enhanced for the orchestrator
  only).
\<close>

theorem C3_detectors_differ_counterexample:
  "is_enhanced_format sections_only_manifest
   \<and> \<not> is_already_enhanced (Loaded sections_only_manifest)
   \<and> \<not> is_enhanced_format marker_only_manifest
   \<and> is_already_enhanced (Loaded marker_only_manifest)"
  by code_simp

text \<open>Dictionary updates, and how the metadata check depends on the security level.\<close>

lemma map_of_dict_set:
  "map_of (dict_set k v d) k' = (if k' = k then Some v else map_of d k')"
  by (induction d) auto

lemma dict_get_dict_set:
  "dict_get (dict_set k v d) k' dflt = (if k' = k then v else dict_get d k' dflt)"
  by (simp add: dict_get_def map_of_dict_set)

lemma has_key_dict_set: "has_key k' (dict_set k v d) = (k' = k \<or> has_key k' d)"
  by (simp add: has_key_def map_of_dict_set)

lemma dict_set_not_Nil: "dict_set k v d \<noteq> []"
  by (cases d) (auto split: if_splits)

lemma errors_of_append: "errors_of (xs @ ys) = errors_of xs @ errors_of ys"
  by (simp add: errors_of_def)

lemma errors_of_diag:
  "errors_of (diag fp lv msg # xs) = (if lv = ERROR then diag fp lv msg # errors_of xs else errors_of xs)"
  by (simp add: errors_of_def diag_def)

lemma classification_level:
  "validate_classification fp (dict_set ''security_level'' (YStr ''unsafe'') cl)
     = diag fp ERROR invalid_security_level_message
       # validate_classification fp (dict_set ''security_level'' (YStr ''safe'') cl)"
  by (simp add: validate_classification_def dict_get_dict_set Let_def
      valid_security_levels_def invalid_security_level_message_def)

lemma missing_fields_eq:
  "filter (\<lambda>f. \<not> has_key f (dict_set ''classification'' v m)
                \<or> \<not> truthy (dict_get (dict_set ''classification'' v m) f YNull))
          [''name'', ''description'', ''version'', ''author'']
   = filter (\<lambda>f. \<not> has_key f m \<or> \<not> truthy (dict_get m f YNull))
          [''name'', ''description'', ''version'', ''author'']"
  by (rule filter_cong) (auto simp: dict_get_dict_set has_key_dict_set)

lemma metadata_split:
  "\<exists>A B. \<forall>cl'. validate_enhanced_metadata fp (YDict (dict_set ''classification'' (YDict cl') m))
           = A @ validate_classification fp cl' @ B"
  unfolding validate_enhanced_metadata_def
  apply (simp only: yaml.case missing_fields_eq)
  apply (simp add: dict_get_dict_set Let_def split del: if_split del: filter.simps)
  apply (intro exI allI)
  apply (rule refl)
  done

lemma metadata_level:
  "\<exists>A B. validate_enhanced_metadata fp
            (YDict (dict_set ''classification''
               (YDict (dict_set ''security_level'' (YStr ''unsafe'') cl)) m))
           = A @ diag fp ERROR invalid_security_level_message # B
         \<and> validate_enhanced_metadata fp
            (YDict (dict_set ''classification''
               (YDict (dict_set ''security_level'' (YStr ''safe'') cl)) m))
           = A @ B"
proof -
  from metadata_split [of fp m] obtain A B where
    ab: "\<And>cl'. validate_enhanced_metadata fp (YDict (dict_set ''classification'' (YDict cl') m))
           = A @ validate_classification fp cl' @ B"
    by blast
  show ?thesis
    by (rule exI [of _ A],
        rule exI [of _ "validate_classification fp (dict_set ''security_level'' (YStr ''safe'') cl) @ B"])
       (simp add: ab classification_level)
qed

lemma format_split:
  "\<exists>R. \<forall>md. validate_enhanced_format fp (YDict (dict_set ''metadata'' md c))
          = map_option (\<lambda>t. validate_enhanced_metadata fp md @ t) R"
proof -
  let ?tools = "dict_get c ''tools'' (YList [])"
  let ?R = "if \<not> truthy ?tools
            then Some [diag fp ERROR ''Enhanced format must contain at least one tool'']
            else do {
              ts \<leftarrow> py_iter ?tools;
              rs \<leftarrow> those (map (\<lambda>it. validate_enhanced_tool fp (snd it) (fst it)) (enumerate 0 ts));
              Some (concat rs)
            }"
  have "\<forall>md. validate_enhanced_format fp (YDict (dict_set ''metadata'' md c))
          = map_option (\<lambda>t. validate_enhanced_metadata fp md @ t) ?R"
    by (auto simp: validate_enhanced_format_def dict_get_dict_set split: bind_splits)
  then show ?thesis by blast
qed

lemma enhanced_with_level: "is_enhanced_format (with_security_level lvl c m cl)"
  by (simp add: is_enhanced_format_def with_security_level_def dict_get_dict_set has_key_dict_set)

text \<open>
  C5.  Enum enforcement: take an enhanced manifest whose validation reports no ERROR when
  its \<open>classification.security_level\<close> is safe.  With the level set to unsafe instead,
  validation reports exactly one ERROR, and its message names the allowed set safe,
  restricted, mixed, privileged, dangerous, blocked.
\<close>

theorem C5_enum_enforcement:
  assumes "validate_file (new_validator strict) fp (Parsed (with_security_level ''safe'' c m cl))
             = Some v1"
      and "errors_of (results v1) = []"
  shows "\<exists>v2. validate_file (new_validator strict) fp
                (Parsed (with_security_level ''unsafe'' c m cl)) = Some v2
              \<and> errors_of (results v2) = [diag fp ERROR invalid_security_level_message]"
proof -
  from metadata_level [of fp cl m] obtain A B where
    unsafe: "validate_enhanced_metadata fp
            (YDict (dict_set ''classification''
               (YDict (dict_set ''security_level'' (YStr ''unsafe'') cl)) m))
           = A @ diag fp ERROR invalid_security_level_message # B"
    and safe: "validate_enhanced_metadata fp
            (YDict (dict_set ''classification''
               (YDict (dict_set ''security_level'' (YStr ''safe'') cl)) m))
           = A @ B"
    by blast
  from format_split [of fp c] obtain R where
    r: "\<And>md. validate_enhanced_format fp (YDict (dict_set ''metadata'' md c))
          = map_option (\<lambda>t. validate_enhanced_metadata fp md @ t) R"
    by blast
  have run: "validate_file (new_validator strict) fp (Parsed (with_security_level lvl c m cl))
      = map_option (\<lambda>t. add_results (new_validator strict)
          (diag fp INFO ''Detected format: Enhanced MCP 2025-06-18''
           # validate_enhanced_metadata fp
               (YDict (dict_set ''classification''
                  (YDict (dict_set ''security_level'' (YStr lvl) cl)) m)) @ t)) R" for lvl
    using enhanced_with_level [of lvl c m cl] unfolding with_security_level_def
    by (cases R) (simp_all add: validate_file_def r)
  from assms(1) obtain t where
    t: "R = Some t"
    and v1: "v1 = add_results (new_validator strict)
          (diag fp INFO ''Detected format: Enhanced MCP 2025-06-18'' # (A @ B) @ t)"
    by (cases R) (auto simp: run safe)
  from assms(2) have clean: "errors_of A = []" "errors_of B = []" "errors_of t = []"
    by (simp_all add: v1 add_results_def new_validator_def errors_of_diag errors_of_append)
  have "validate_file (new_validator strict) fp (Parsed (with_security_level ''unsafe'' c m cl))
      = Some (add_results (new_validator strict)
          (diag fp INFO ''Detected format: Enhanced MCP 2025-06-18''
           # (A @ diag fp ERROR invalid_security_level_message # B) @ t))"
    by (simp add: run unsafe t)
  moreover have "errors_of (results (add_results (new_validator strict)
          (diag fp INFO ''Detected format: Enhanced MCP 2025-06-18''
           # (A @ diag fp ERROR invalid_security_level_message # B) @ t)))
      = [diag fp ERROR invalid_security_level_message]"
    by (simp add: add_results_def new_validator_def errors_of_diag errors_of_append clean)
  ultimately show ?thesis by blast
qed

theorem C5_enum_enforcement_witness:
  "map_option (\<lambda>v. errors_of (results v))
        (validate_file (new_validator False) ''caps/small.yaml''
           (Parsed (with_security_level ''safe'' small_tools small_metadata [])))
      = Some []
   \<and> map_option (\<lambda>v. errors_of (results v))
        (validate_file (new_validator False) ''caps/small.yaml''
           (Parsed (with_security_level ''unsafe'' small_tools small_metadata [])))
      = Some [diag ''caps/small.yaml'' ERROR invalid_security_level_message]"
proof -
  have h: "map_option (\<lambda>v. errors_of (results v))
        (validate_file (new_validator False) ''caps/small.yaml''
           (Parsed (with_security_level ''safe'' small_tools small_metadata [])))
      = Some []"
    by code_simp
  then obtain v1 where
    h1: "validate_file (new_validator False) ''caps/small.yaml''
           (Parsed (with_security_level ''safe'' small_tools small_metadata [])) = Some v1"
    and h2: "errors_of (results v1) = []"
    by auto
  from C5_enum_enforcement [OF h1 h2] h show ?thesis by auto
qed

text \<open>
  What migration builds passes the enhanced checks: each section of a migrated tool, each
  migrated tool, the list of them, and the enhanced metadata.
\<close>

lemma security_level_valid: "security_level_of s \<in> set valid_security_levels"
  by (simp add: security_level_of_def valid_security_levels_def)

lemma complexity_level_valid: "complexity_level_of n \<in> set valid_complexity_levels"
  by (simp add: complexity_level_of_def valid_complexity_levels_def)

lemma enhance_input_schema_ok:
  "enhance_input_schema s = Some es \<Longrightarrow> truthy es \<and> is_dict es"
  by (auto simp: enhance_input_schema_def dict_set_not_Nil split: yaml.splits if_splits)

lemma enhance_routing_type:
  "enhance_routing r = Some er \<Longrightarrow> \<exists>rt rest. er = YDict ((''type'', YStr (''enhanced_'' @ rt)) # rest)"
  by (auto simp: enhance_routing_def split: bind_splits)

lemma security_config_dict: "\<exists>d. create_security_config c = YDict d"
  by (simp add: create_security_config_def base_config_def dict_get_def)


lemma tool_core_clean:
  "enhance_input_schema s = Some es \<Longrightarrow> d \<noteq> [] \<Longrightarrow>
   validate_tool_core fp n (YDict [(''description'', YStr d), (''input_schema'', es)]) = Some []"
  using enhance_input_schema_ok [of s es]
  by (simp add: validate_tool_core_def dict_get_def)

lemma tool_execution_clean:
  assumes "enhance_routing r = Some er"
  shows "\<exists>rs. validate_tool_execution fp n
           (YDict [(''routing'', er), (''security'', create_security_config c), (''performance'', p)])
             = Some rs \<and> errors_of rs = []"
proof -
  from enhance_routing_type [OF assms] obtain rt rest where
    er: "er = YDict ((''type'', YStr (''enhanced_'' @ rt)) # rest)"
    by blast
  from security_config_dict [of c] obtain d where
    d: "create_security_config c = YDict d"
    by blast
  show ?thesis
    by (simp add: validate_tool_execution_def er d dict_get_def errors_of_def diag_def)
qed

lemma tool_discovery_clean:
  "validate_tool_discovery fp n
     (YDict [(''ai_enhanced'', create_ai_discovery t d), (''parameter_intelligence'', p)]) = Some []"
  by (simp add: validate_tool_discovery_def create_ai_discovery_def dict_get_def)

lemma tool_monitoring_clean:
  "validate_tool_monitoring fp n (create_monitoring_config t) = Some []"
  by (simp add: validate_tool_monitoring_def create_monitoring_config_def Let_def dict_get_def
      has_key_def)

lemma tool_access_clean:
  "validate_tool_access fp n
     (YDict [(''hidden'', h), (''enabled'', e), (''requires_permissions'', ps),
             (''user_groups'', g), (''approval_required'', a)]) = Some []"
  by (simp add: validate_tool_access_def has_key_def)


lemma tool_clean:
  assumes "migrate_tool_to_enhanced t = Some et"
  shows "\<exists>rs. validate_enhanced_tool fp et i = Some rs \<and> errors_of rs = []"
proof -
  from assms obtain nm d s r h es er pin where
    et: "et = YDict
       [(''name'', YStr (''enhanced_'' @ nm)),
        (''core'', YDict
           [(''description'', YStr (''AI-enhanced '' @ py_str d
                @ '' with MCP 2025-06-18 compliance'')),
            (''input_schema'', es)]),
        (''execution'', YDict
           [(''routing'', er),
            (''security'', create_security_config (security_classification_of nm)),
            (''performance'', create_performance_config nm)]),
        (''discovery'', YDict
           [(''ai_enhanced'', create_ai_discovery nm d),
            (''parameter_intelligence'', pin)]),
        (''monitoring'', create_monitoring_config nm),
        (''access'', YDict
           [(''hidden'', h),
            (''enabled'', YBool True),
            (''requires_permissions'', strs (determine_permissions (security_classification_of nm))),
            (''user_groups'',
               (if security_classification_of nm = ''safe'' then strs [''all'']
                else strs [''administrators''])),
            (''approval_required'',
               YBool (security_classification_of nm \<in> set [''dangerous'', ''privileged'']))])]"
    and es: "enhance_input_schema s = Some es"
    and er: "enhance_routing r = Some er"
    by (auto simp: migrate_tool_to_enhanced_def Let_def split: bind_splits yaml.splits)
  define n where "n = YStr (''enhanced_'' @ nm)"
  define dd where "dd = ''AI-enhanced '' @ py_str d @ '' with MCP 2025-06-18 compliance''"
  define acc where "acc = YDict
           [(''hidden'', h),
            (''enabled'', YBool True),
            (''requires_permissions'', strs (determine_permissions (security_classification_of nm))),
            (''user_groups'',
               (if security_classification_of nm = ''safe'' then strs [''all'']
                else strs [''administrators''])),
            (''approval_required'',
               YBool (security_classification_of nm \<in> set [''dangerous'', ''privileged'']))]"
  have dd: "dd \<noteq> []"
    by (simp add: dd_def)
  have et': "et = YDict
       [(''name'', n),
        (''core'', YDict [(''description'', YStr dd), (''input_schema'', es)]),
        (''execution'', YDict
           [(''routing'', er),
            (''security'', create_security_config (security_classification_of nm)),
            (''performance'', create_performance_config nm)]),
        (''discovery'', YDict
           [(''ai_enhanced'', create_ai_discovery nm d),
            (''parameter_intelligence'', pin)]),
        (''monitoring'', create_monitoring_config nm),
        (''access'', acc)]"
    unfolding et n_def dd_def acc_def by (rule refl)
  have r1: "validate_tool_core fp n
      (YDict [(''description'', YStr dd), (''input_schema'', es)]) = Some []"
    by (rule tool_core_clean [OF es dd])
  from tool_execution_clean [OF er] obtain rs2 where
    r2: "validate_tool_execution fp n
           (YDict [(''routing'', er),
                   (''security'', create_security_config (security_classification_of nm)),
                   (''performance'', create_performance_config nm)]) = Some rs2"
    and c2: "errors_of rs2 = []"
    by blast
  have r5: "validate_tool_access fp n acc = Some []"
    unfolding acc_def by (rule tool_access_clean)
  have "validate_enhanced_tool fp et i = Some rs2"
    unfolding et' validate_enhanced_tool_def required_enhanced_tool_sections_def
    by (simp add: has_key_def dict_get_def r1 r2 r5 tool_discovery_clean tool_monitoring_clean)
  with c2 show ?thesis by blast
qed


lemma tools_clean:
  "those (map migrate_tool_to_enhanced ts) = Some ets \<Longrightarrow>
     length ets = length ts
     \<and> (\<exists>rss. those (map (\<lambda>it. validate_enhanced_tool fp (snd it) (fst it)) (enumerate n ets))
                 = Some rss
              \<and> errors_of (concat rss) = [])"
proof (induction ts arbitrary: ets n)
  case Nil
  then show ?case by (simp add: errors_of_def)
next
  case (Cons t ts)
  from Cons.prems obtain et ets' where
    et: "migrate_tool_to_enhanced t = Some et"
    and ets': "those (map migrate_tool_to_enhanced ts) = Some ets'"
    and ets: "ets = et # ets'"
    by (auto split: option.splits)
  from tool_clean [OF et, of fp n] obtain rs where
    rs: "validate_enhanced_tool fp et n = Some rs" and c: "errors_of rs = []"
    by blast
  from Cons.IH [OF ets', of "Suc n"] obtain rss where
    len: "length ets' = length ts"
    and rss: "those (map (\<lambda>it. validate_enhanced_tool fp (snd it) (fst it)) (enumerate (Suc n) ets'))
                = Some rss"
    and cs: "errors_of (concat rss) = []"
    by blast
  show ?case
    by (simp add: ets len rs rss c cs errors_of_append)
qed

lemma classify_levels:
  "classify_capability stem md = Some cls \<Longrightarrow>
     fst cls \<in> set valid_security_levels \<and> fst (snd cls) \<in> set valid_complexity_levels"
  by (auto simp: classify_capability_def security_level_valid complexity_level_valid
      split: bind_splits)

lemma metadata_clean:
  assumes "create_enhanced_metadata (YDict m0) stem = Some em"
      and "truthy (dict_get m0 ''author'' (YStr ''MCP 2025 Enhanced Team''))"
  shows "\<exists>m. em = YDict m \<and> has_key ''classification'' m
            \<and> errors_of (validate_enhanced_metadata fp em) = []"
proof -
  from assms(1) obtain nm ds cls kw where
    em: "em = YDict
       [(''name'', YStr (''Enhanced '' @ nm)),
        (''description'', YStr (ds @ '' - MCP 2025-06-18 compliant with AI enhancement'')),
        (''version'', YStr ''3.0.0''),
        (''author'', dict_get m0 ''author'' (YStr ''MCP 2025 Enhanced Team'')),
        (''classification'', YDict
           [(''security_level'', YStr (fst cls)),
            (''complexity_level'', YStr (fst (snd cls))),
            (''domain'', YStr (fst (snd (snd cls)))),
            (''use_cases'', strs (snd (snd (snd cls))))]),
        (''discovery_metadata'', YDict
           [(''primary_keywords'', kw),
            (''semantic_embeddings'', YBool True),
            (''llm_enhanced'', YBool True),
            (''workflow_enabled'', YBool True)]),
        (''mcp_capabilities'', YDict
           [(''version'', YStr ''2025-06-18''),
            (''supports_cancellation'', YBool True),
            (''supports_progress'', YBool True),
            (''supports_sampling'', YBool False),
            (''supports_validation'', YBool True),
            (''supports_elicitation'', YBool False)])]"
    and cls: "classify_capability stem (YDict m0) = Some cls"
    by (auto simp: create_enhanced_metadata_def split: bind_splits)
  from classify_levels [OF cls] have
    lv: "fst cls \<in> set valid_security_levels" "fst (snd cls) \<in> set valid_complexity_levels"
    by simp_all
  have "errors_of (validate_enhanced_metadata fp em) = []"
    unfolding em
    by (simp add: validate_enhanced_metadata_def validate_classification_def
        validate_discovery_metadata_def validate_mcp_capabilities_def
        has_key_def dict_get_def lv assms(2) [unfolded dict_get_def] errors_of_def diag_def
        del: strs.simps)
  then show ?thesis
    by (simp add: em has_key_def)
qed

text \<open>
  A legacy manifest with a list of tools is well formed exactly when the legacy check of
  the validator runs through and reports nothing.
\<close>

lemma legacy_tool_clean:
  "validate_legacy_tool fp t i = Some [] \<longleftrightarrow> legacy_tool_ok t"
proof (cases t)
  case (YDict d)
  show ?thesis
    by (cases "dict_get d ''routing'' (YDict [])")
       (auto simp: YDict validate_legacy_tool_def legacy_tool_ok_def)
qed (simp_all add: validate_legacy_tool_def legacy_tool_ok_def)

lemma legacy_tool_errors_only:
  "validate_legacy_tool fp t i = Some rs \<Longrightarrow> errors_of rs = rs"
  by (auto simp: validate_legacy_tool_def errors_of_def diag_def split: bind_splits)

lemma legacy_tools_clean:
  "(\<exists>rss. those (map (\<lambda>it. validate_legacy_tool fp (snd it) (fst it)) (enumerate n ts)) = Some rss
          \<and> errors_of (concat rss) = [])
   \<longleftrightarrow> list_all legacy_tool_ok ts"
proof (induction ts arbitrary: n)
  case Nil
  show ?case by (simp add: errors_of_def)
next
  case (Cons t ts)
  show ?case
  proof (cases "validate_legacy_tool fp t n")
    case None
    then have "\<not> legacy_tool_ok t"
      using legacy_tool_clean [of fp t n] by simp
    with None show ?thesis by simp
  next
    case (Some rs)
    have e: "errors_of rs = rs"
      by (rule legacy_tool_errors_only [OF Some])
    have ok: "legacy_tool_ok t \<longleftrightarrow> rs = []"
      using legacy_tool_clean [of fp t n] Some by auto
    show ?thesis
      using Cons.IH [of "Suc n"]
      by (auto simp: Some errors_of_append e ok split: option.splits)
  qed
qed

lemma well_formed_legacy_iff:
  "well_formed_legacy (YDict c) \<longleftrightarrow>
     (\<exists>ts. dict_get c ''tools'' (YList []) = YList ts)
     \<and> (\<exists>rs. validate_legacy_format fp (YDict c) = Some rs \<and> errors_of rs = [])"
proof (cases "dict_get c ''tools'' (YList [])")
  case (YList ts)
  show ?thesis
  proof (cases "ts = []")
    case True
    then show ?thesis
      by (simp add: well_formed_legacy_def validate_legacy_format_def YList errors_of_def diag_def)
  next
    case False
    then show ?thesis
      using legacy_tools_clean [of fp 0 ts]
      by (auto simp: well_formed_legacy_def validate_legacy_format_def YList split: bind_splits)
  qed
qed (simp_all add: well_formed_legacy_def)

text \<open>
  C1.  Round trip: for every well-formed legacy manifest that migration accepts (it
  returns an enhanced manifest instead of raising) and whose metadata gives no author or
  a non-empty one, validating the migrated manifest reports no ERROR.
\<close>

theorem C1_roundtrip:
  assumes wf: "well_formed_legacy L"
      and author: "legacy_author_ok L"
      and mig: "migrate_yaml_content L file_stem \<noteq> None"
  shows "roundtrip_errors strict fp L file_stem = Some []"
proof -
  from wf obtain c ts where
    L: "L = YDict c" and tools: "dict_get c ''tools'' (YList []) = YList ts" and ne: "ts \<noteq> []"
    by (auto simp: well_formed_legacy_def split: yaml.splits)
  from author L obtain m0 where
    md: "dict_get c ''metadata'' (YDict []) = YDict m0"
    and au: "truthy (dict_get m0 ''author'' (YStr ''MCP 2025 Enhanced Team''))"
    by (auto simp: legacy_author_ok_def split: yaml.splits)
  from mig obtain em ets where
    em: "create_enhanced_metadata (YDict m0) file_stem = Some em"
    and ets: "those (map migrate_tool_to_enhanced ts) = Some ets"
    and E: "migrate_yaml_content L file_stem
              = Some (YDict [(''metadata'', em), (''tools'', YList ets)])"
    by (auto simp: migrate_yaml_content_def L tools md split: bind_splits)
  from metadata_clean [OF em au, of fp] obtain m where
    m: "em = YDict m" and key: "has_key ''classification'' m"
    and mc: "errors_of (validate_enhanced_metadata fp em) = []"
    by blast
  from tools_clean [OF ets, of fp 0] obtain rss where
    len: "length ets = length ts"
    and rss: "those (map (\<lambda>it. validate_enhanced_tool fp (snd it) (fst it)) (enumerate 0 ets))
                = Some rss"
    and tc: "errors_of (concat rss) = []"
    by blast
  from len ne have ets_ne: "ets \<noteq> []"
    by auto
  have enh: "is_enhanced_format (YDict [(''metadata'', em), (''tools'', YList ets)])"
    by (simp add: is_enhanced_format_def dict_get_def m key)
  have fmt: "validate_enhanced_format fp (YDict [(''metadata'', em), (''tools'', YList ets)])
      = Some (validate_enhanced_metadata fp em @ concat rss)"
    by (simp add: validate_enhanced_format_def dict_get_def ets_ne rss)
  show ?thesis
    by (simp add: roundtrip_errors_def E validate_file_def enh fmt add_results_def
        new_validator_def errors_of_diag errors_of_append mc tc)
qed

theorem C1_roundtrip_witness:
  "well_formed_legacy read_file_manifest
   \<and> legacy_author_ok read_file_manifest
   \<and> migrate_yaml_content read_file_manifest ''file_ops'' \<noteq> None
   \<and> roundtrip_errors False ''out.yaml'' read_file_manifest ''file_ops'' = Some []"
proof -
  have h1: "well_formed_legacy read_file_manifest"
    by code_simp
  have h2: "legacy_author_ok read_file_manifest"
    by code_simp
  have h3: "migrate_yaml_content read_file_manifest ''file_ops'' \<noteq> None"
    by code_simp
  from C1_roundtrip [OF h1 h2 h3] h1 h2 h3 show ?thesis by blast
qed

text \<open>
  C1, as stated, covers every well-formed legacy manifest.  An empty author in the legacy
  metadata is copied into the enhanced metadata, where the validator reports it as a
  missing required field; and a manifest whose metadata key has no value makes migration
  raise, so that there is nothing to validate.
\<close>

theorem C1_roundtrip_counterexample:
  "well_formed_legacy empty_author_manifest
   \<and> roundtrip_errors False ''out.yaml'' empty_author_manifest ''file_ops''
       = Some [diag ''out.yaml'' ERROR ''Missing required metadata fields: author'']
   \<and> well_formed_legacy null_metadata_manifest
   \<and> roundtrip_errors False ''out.yaml'' null_metadata_manifest ''file_ops'' = None"
  by code_simp

text \<open>
  C6.  Enhancing the input schema of the read_file tool changes the legacy schema: the
  copy is shallow, so the configuration of the property \<open>path\<close> is one object shared by
  the legacy schema and the copy, and the validation hints assigned through the copy show
  in the legacy schema afterwards.  Only \<open>additionalProperties\<close> stays out of it.  The
  returned schema is the one of the value-level function.
\<close>

theorem C6_legacy_schema_mutated:
  "enhance_input_schema_st read_file_store (VRef 0) = Some (VRef 3, read_file_store_after)
   \<and> reify 5 read_file_store (VRef 0) = Some read_file_schema
   \<and> reify 5 read_file_store_after (VRef 0)
       = Some (YDict
           [(''type'', YStr ''object''),
            (''properties'', YDict
               [(''path'', YDict
                   [(''type'', YStr ''string''),
                    (''validation'', YDict
                       [(''path_traversal_protection'', YBool True),
                        (''security_scan'', YBool True)])])])])
   \<and> reify 5 read_file_store_after (VRef 0) \<noteq> reify 5 read_file_store (VRef 0)
   \<and> reify 5 read_file_store_after (VRef 3) = enhance_input_schema read_file_schema"
  by code_simp

end
